theory Spec2Isabelle
  imports Complex_Main "HOL-Library.AList"
begin

section \<open>Data model\<close>

text \<open>
  The exceptions the Python code can raise. \<open>ValueError\<close> is raised by the
  repository's own checks; \<open>IndexError\<close> by list and tensor indexing out of range;
  \<open>RuntimeError\<close> by \<open>torch.topk\<close> for a bad \<open>k\<close>; \<open>TypeError\<close> by iterating
  over \<open>None\<close>; \<open>ExternalError\<close> stands for any exception of a library call
  (model download, \<open>abnumber.Chain\<close>).
\<close>

datatype error = ValueError | IndexError | RuntimeError | TypeError | ExternalError

text \<open>
  The dataclass \<open>UncertaintyGuidedMutation\<close> of \<open>llm_redesign.py\<close>. The \<open>device\<close>
  field plays no part in the modelled functions. \<open>mask_ratio\<close> and
  \<open>uncertainty_threshold\<close> are Python floats: the real numbers they denote.
\<close>

record mutator =
  target_seq :: string
  temp_pept_seq :: string
  modality :: string
  model_id :: string
  model_weights :: "string option"
  n_seq_out :: int
  mask_strategy :: string
  mask_ratio :: real
  uncertainty_threshold :: real
  use_template :: bool
  custom_template :: "string option"
  residues_to_mutate :: "int list option"
  nanobody_cdr_regions :: "string list option"

text \<open>The dataclass of the same name in \<open>uncertainty_guided_mutation.py\<close>.\<close>

record ugm_mutator =
  ugm_target_seq :: string
  ugm_temp_pept_seq :: string
  ugm_model_id :: string
  ugm_model_weights :: "string option"
  ugm_n_seq_out :: int
  ugm_mask_strategy :: string
  ugm_mask_ratio :: real
  ugm_uncertainty_threshold :: real

definition MODALITY_TEMPLATES :: "(string \<times> string) list" where
  "MODALITY_TEMPLATES =
     [(''affibody'', ''VDNKFNKELSVAGREIVTLPNLNDPQKKAFIFSLWDDPSQSANLLAEAKKLNDAQAPK''),
      (''nanobody'', ''AQVQLQESGGGLVQAGGSLRLSCAASERTFSTYAMGWFRQAPGREREFLAQINWSGTTTYYAESVKDRTTISRDNAKNTVYLEMNNLNADDTGIYFCAAHPQRGWGSTLGWTYWGQGTQVTVSSGGGGSGGGKPIPNPLLGLDSTRTGHHHHHH''),
      (''affitin'', ''MRGSHHHHHHGSVKVKFVSSGEEKEVDTSKIKKVWRNLTKYGTIVQFTYDDNGKTGRGYVRELDAPKELLDMLARAEGKLN'')]"

definition NANOBODY_CDR_REGIONS_IMGT :: "(string \<times> int \<times> int) list" where
  "NANOBODY_CDR_REGIONS_IMGT =
     [(''CDR1'', (26, 35)), (''CDR2'', (49, 65)), (''CDR3'', (94, 102))]"

section \<open>Python primitives\<close>

text \<open>\<open>int(x)\<close> on a float truncates towards zero.\<close>

definition py_int :: "real \<Rightarrow> int" where
  "py_int x = (if 0 \<le> x then \<lfloor>x\<rfloor> else \<lceil>x\<rceil>)"

text \<open>
  Floating point. A float is the real number it denotes; what the arithmetic of the
  interpreter and of PyTorch adds is rounding, and where PyTorch leaves a choice
  open, the choice. They are parameters of the selection:
  \<^item> \<open>float_mul a b\<close> is the Python product \<open>a * b\<close> of two floats, the exact product
    rounded to a double;
  \<^item> \<open>to_dtype x\<close> is the Python float \<open>x\<close> converted to the dtype of the uncertainty
    tensor, which PyTorch does before it compares a tensor element with \<open>x\<close>;
  \<^item> \<open>tie_rank\<close> ranks the indices of equal values for \<open>torch.topk\<close>, which leaves
    their order open.
  The elements of a tensor are reals (no NaN, no infinity).
\<close>

record numerics =
  float_mul :: "real \<Rightarrow> real \<Rightarrow> real"
  to_dtype :: "real \<Rightarrow> real"
  tie_rank :: "nat \<Rightarrow> nat"

text \<open>
  Rounding to the nearest binary floating-point number with \<open>p\<close> significant bits,
  ties to even, in the normal range (no overflow, no subnormals): \<open>p = 8\<close> is
  bfloat16, \<open>p = 24\<close> float32, \<open>p = 53\<close> the Python float.
\<close>

definition round_to_even :: "real \<Rightarrow> int" where
  "round_to_even x =
     (if x - of_int \<lfloor>x\<rfloor> < 1 / 2 then \<lfloor>x\<rfloor>
      else if 1 / 2 < x - of_int \<lfloor>x\<rfloor> then \<lfloor>x\<rfloor> + 1
      else if even \<lfloor>x\<rfloor> then \<lfloor>x\<rfloor> else \<lfloor>x\<rfloor> + 1)"

definition binary_round :: "nat \<Rightarrow> real \<Rightarrow> real" where
  "binary_round p x =
     (if x = 0 then 0
      else (let ulp = 2 powr (of_int (\<lfloor>log 2 \<bar>x\<bar>\<rfloor> - int p + 1))
            in of_int (round_to_even (x / ulp)) * ulp))"

text \<open>
  Indexing a sequence of length \<open>n\<close> with an integer \<open>i\<close>: a negative index counts
  from the end, and an index outside \<open>-n .. n-1\<close> raises IndexError.
\<close>

definition norm_index :: "nat \<Rightarrow> int \<Rightarrow> nat" where
  "norm_index n i = nat (if i < 0 then i + int n else i)"

definition index_ok :: "nat \<Rightarrow> int \<Rightarrow> bool" where
  "index_ok n i \<longleftrightarrow> - int n \<le> i \<and> i < int n"

definition py_get :: "'a list \<Rightarrow> int \<Rightarrow> error + 'a" where
  "py_get xs i =
     (if index_ok (length xs) i then Inr (xs ! norm_index (length xs) i)
      else Inl IndexError)"

text \<open>\<open>t[idxs]\<close> for a one-dimensional tensor and a list of integers.\<close>

fun py_get_list :: "'a list \<Rightarrow> int list \<Rightarrow> error + 'a list" where
  "py_get_list xs [] = Inr []"
| "py_get_list xs (i # is) =
     (case py_get xs i of
        Inl e \<Rightarrow> Inl e
      | Inr v \<Rightarrow> (case py_get_list xs is of
                   Inl e \<Rightarrow> Inl e
                 | Inr vs \<Rightarrow> Inr (v # vs)))"

text \<open>\<open>xs[i] = v\<close> on a Python list.\<close>

definition py_set :: "'a list \<Rightarrow> int \<Rightarrow> 'a \<Rightarrow> error + 'a list" where
  "py_set xs i v =
     (if index_ok (length xs) i then Inr (xs[norm_index (length xs) i := v])
      else Inl IndexError)"

text \<open>The slice \<open>s[a:b]\<close>: both bounds wrap when negative and are clamped to \<open>0 .. len\<close>.\<close>

definition clamp_bound :: "nat \<Rightarrow> int \<Rightarrow> nat" where
  "clamp_bound n i = nat (min (int n) (max 0 (if i < 0 then i + int n else i)))"

definition py_slice :: "'a list \<Rightarrow> int \<Rightarrow> int \<Rightarrow> 'a list" where
  "py_slice s a b =
     (let lo = clamp_bound (length s) a; hi = clamp_bound (length s) b
      in take (hi - lo) (drop lo s))"

text \<open>\<open>s.find(sub)\<close>: the lowest index at which \<open>sub\<close> occurs in \<open>s\<close>, or \<open>-1\<close>.\<close>

fun find_from :: "string \<Rightarrow> string \<Rightarrow> int \<Rightarrow> int" where
  "find_from [] sub i = (if sub = [] then i else - 1)"
| "find_from (c # cs) sub i =
     (if take (length sub) (c # cs) = sub then i else find_from cs sub (i + 1))"

definition str_find :: "string \<Rightarrow> string \<Rightarrow> int" where
  "str_find s sub = find_from s sub 0"

text \<open>
  \<open>torch.topk(values, k)\<close> on a one-dimensional tensor: the indices of the \<open>k\<close> largest
  values, largest first. PyTorch leaves the order among equal values open: the
  indices are ordered by \<open>tie\<close> first and then sorted by value with a stable sort, so
  that \<open>tie\<close> decides among equal values and every answer PyTorch may give is the
  answer for some \<open>tie\<close>. It raises when \<open>k\<close> is out of range.
\<close>

definition topk :: "(nat \<Rightarrow> nat) \<Rightarrow> real list \<Rightarrow> int \<Rightarrow> error + nat list" where
  "topk tie vs k =
     (if k < 0 \<or> int (length vs) < k then Inl RuntimeError
      else Inr (take (nat k)
                  (sort_key (\<lambda>i. - (vs ! i)) (sort_key tie [0..<length vs]))))"

section \<open>Templates and the peptide sequence\<close>

definition get_template_sequence :: "mutator \<Rightarrow> error + string" where
  "get_template_sequence m =
     (case custom_template m of
        Some t \<Rightarrow> Inr t
      | None \<Rightarrow>
          (case map_of MODALITY_TEMPLATES (modality m) of
             Some t \<Rightarrow> Inr t
           | None \<Rightarrow> Inl ValueError))"

definition get_peptide_sequence :: "mutator \<Rightarrow> error + string" where
  "get_peptide_sequence m =
     (if use_template m then get_template_sequence m
      else if temp_pept_seq m = [] then Inl ValueError
      else Inr (temp_pept_seq m))"

text \<open>
  \<open>__post_init__\<close>: the validation, then the library calls that load the tokenizer
  and the model. The calls are recorded as a trace of effects; \<open>env\<close> says which of
  them succeed, and the first failing one ends the construction.
\<close>

datatype effect =
    LoadTokenizer string
  | LoadModel string
  | LoadWeights string
  | ModelEval

fun perform :: "(effect \<Rightarrow> bool) \<Rightarrow> effect list \<Rightarrow> effect list \<Rightarrow> effect list \<times> (error + unit)" where
  "perform env [] tr = (tr, Inr ())"
| "perform env (e # es) tr =
     (if env e then perform env es (tr @ [e]) else (tr @ [e], Inl ExternalError))"

definition post_init :: "(effect \<Rightarrow> bool) \<Rightarrow> mutator \<Rightarrow> effect list \<times> (error + unit)" where
  "post_init env m =
     (if temp_pept_seq m = [] \<and> \<not> use_template m then ([], Inl ValueError)
      else perform env
             ([LoadTokenizer (model_id m), LoadModel (model_id m)]
              @ (case model_weights m of None \<Rightarrow> [] | Some p \<Rightarrow> [LoadWeights p])
              @ [ModelEval]) [])"

text \<open>The constructor of \<open>uncertainty_guided_mutation.py\<close> has no validation.\<close>

definition ugm_post_init :: "(effect \<Rightarrow> bool) \<Rightarrow> ugm_mutator \<Rightarrow> effect list \<times> (error + unit)" where
  "ugm_post_init env m =
     perform env
       ([LoadTokenizer (ugm_model_id m), LoadModel (ugm_model_id m)]
        @ (case ugm_model_weights m of None \<Rightarrow> [] | Some p \<Rightarrow> [LoadWeights p])
        @ [ModelEval]) []"

section \<open>CDR lookup\<close>

text \<open>
  \<open>abnumber.Chain(seq, scheme='imgt')\<close> is a library call: it either raises or gives
  a chain whose \<open>cdr1_seq\<close>, \<open>cdr2_seq\<close>, \<open>cdr3_seq\<close> are strings. It is a
  parameter of the functions below, together with the flag \<open>HAS_ABNUMBER\<close>.
\<close>

type_synonym chain_fn = "string \<Rightarrow> error + string \<times> string \<times> string"

text \<open>The loop of \<open>_get_cdr_residues_fallback\<close>, with the list it extends.\<close>

fun cdr_residues_fallback_loop :: "string list \<Rightarrow> int list \<Rightarrow> error + int list" where
  "cdr_residues_fallback_loop [] cdr_residues = Inr cdr_residues"
| "cdr_residues_fallback_loop (cdr_name # rest) cdr_residues =
     (case map_of NANOBODY_CDR_REGIONS_IMGT cdr_name of
        None \<Rightarrow> Inl ValueError
      | Some (start, end) \<Rightarrow>
          cdr_residues_fallback_loop rest (cdr_residues @ [start..end]))"

definition get_cdr_residues_fallback :: "mutator \<Rightarrow> error + int list" where
  "get_cdr_residues_fallback m =
     (case nanobody_cdr_regions m of
        None \<Rightarrow> Inl TypeError
      | Some regions \<Rightarrow>
          (case cdr_residues_fallback_loop regions [] of
             Inl e \<Rightarrow> Inl e
           | Inr cdr_residues \<Rightarrow> Inr (sort (remdups cdr_residues))))"

text \<open>The loop inside the \<open>try\<close> block of \<open>_get_cdr_residues_abnumber\<close>.\<close>

fun cdr_residues_abnumber_loop ::
  "(string \<times> string) list \<Rightarrow> string \<Rightarrow> string list \<Rightarrow> int list \<Rightarrow> error + int list" where
  "cdr_residues_abnumber_loop cdr_map nanobody_seq [] cdr_residues = Inr cdr_residues"
| "cdr_residues_abnumber_loop cdr_map nanobody_seq (cdr_name # rest) cdr_residues =
     (case map_of cdr_map cdr_name of
        None \<Rightarrow> Inl ValueError
      | Some cdr_seq \<Rightarrow>
          (if cdr_seq \<noteq> [] then
             (let start_idx = str_find nanobody_seq cdr_seq in
              if start_idx \<noteq> - 1 then
                (let end_idx = start_idx + int (length cdr_seq) - 1 in
                 cdr_residues_abnumber_loop cdr_map nanobody_seq rest
                   (cdr_residues @ [start_idx..end_idx]))
              else cdr_residues_abnumber_loop cdr_map nanobody_seq rest cdr_residues)
           else cdr_residues_abnumber_loop cdr_map nanobody_seq rest cdr_residues))"

definition get_cdr_residues_abnumber :: "chain_fn \<Rightarrow> mutator \<Rightarrow> string \<Rightarrow> error + int list" where
  "get_cdr_residues_abnumber chain m nanobody_seq =
     (let attempt =
        (case chain nanobody_seq of
           Inl e \<Rightarrow> Inl e
         | Inr (cdr1_seq, cdr2_seq, cdr3_seq) \<Rightarrow>
             (case nanobody_cdr_regions m of
                None \<Rightarrow> Inl TypeError
              | Some regions \<Rightarrow>
                  (case cdr_residues_abnumber_loop
                          [(''CDR1'', cdr1_seq), (''CDR2'', cdr2_seq), (''CDR3'', cdr3_seq)]
                          nanobody_seq regions [] of
                     Inl e \<Rightarrow> Inl e
                   | Inr cdr_residues \<Rightarrow> Inr (sort (remdups cdr_residues)))))
      in case attempt of
           Inl e \<Rightarrow> get_cdr_residues_fallback m
         | Inr r \<Rightarrow> Inr r)"

definition get_nanobody_cdr_residues :: "bool \<Rightarrow> chain_fn \<Rightarrow> mutator \<Rightarrow> error + int list" where
  "get_nanobody_cdr_residues HAS_ABNUMBER chain m =
     (if modality m \<noteq> ''nanobody'' then Inl ValueError
      else if nanobody_cdr_regions m = None then Inl ValueError
      else (case get_peptide_sequence m of
              Inl e \<Rightarrow> Inl e
            | Inr peptide_seq \<Rightarrow>
                (if HAS_ABNUMBER then get_cdr_residues_abnumber chain m peptide_seq
                 else get_cdr_residues_fallback m)))"

text \<open>
  The dictionary that \<open>identify_nanobody_cdrs\<close> builds, as an association list in
  insertion order; \<open>AList.update\<close> is \<open>d[k] = v\<close>.
\<close>

type_synonym cdr_dict = "(string \<times> int \<times> int \<times> string) list"

fun identify_cdrs_abnumber_loop ::
  "string \<Rightarrow> (string \<times> string) list \<Rightarrow> cdr_dict \<Rightarrow> cdr_dict" where
  "identify_cdrs_abnumber_loop nanobody_seq [] cdr_dict = cdr_dict"
| "identify_cdrs_abnumber_loop nanobody_seq ((cdr_name, cdr_seq) # rest) cdr_dict =
     (if cdr_seq \<noteq> [] then
        (let start_idx = str_find nanobody_seq cdr_seq in
         if start_idx \<noteq> - 1 then
           (let end_idx = start_idx + int (length cdr_seq) - 1 in
            identify_cdrs_abnumber_loop nanobody_seq rest
              (AList.update cdr_name (start_idx, end_idx, cdr_seq) cdr_dict))
         else identify_cdrs_abnumber_loop nanobody_seq rest cdr_dict)
      else identify_cdrs_abnumber_loop nanobody_seq rest cdr_dict)"

fun identify_cdrs_fallback_loop ::
  "string \<Rightarrow> (string \<times> int \<times> int) list \<Rightarrow> cdr_dict \<Rightarrow> cdr_dict" where
  "identify_cdrs_fallback_loop nanobody_seq [] cdr_dict = cdr_dict"
| "identify_cdrs_fallback_loop nanobody_seq ((cdr_name, (start, end)) # rest) cdr_dict =
     (if end < int (length nanobody_seq) then
        (let cdr_seq = py_slice nanobody_seq start (end + 1) in
         identify_cdrs_fallback_loop nanobody_seq rest
           (AList.update cdr_name (start, end, cdr_seq) cdr_dict))
      else
        (let actual_end = min end (int (length nanobody_seq) - 1);
             cdr_seq = py_slice nanobody_seq start (actual_end + 1) in
         identify_cdrs_fallback_loop nanobody_seq rest
           (AList.update cdr_name (start, actual_end, cdr_seq) cdr_dict)))"

definition identify_cdrs_fallback :: "string \<Rightarrow> cdr_dict" where
  "identify_cdrs_fallback nanobody_seq =
     identify_cdrs_fallback_loop nanobody_seq NANOBODY_CDR_REGIONS_IMGT []"

definition identify_cdrs_abnumber :: "chain_fn \<Rightarrow> string \<Rightarrow> cdr_dict" where
  "identify_cdrs_abnumber chain nanobody_seq =
     (case chain nanobody_seq of
        Inl e \<Rightarrow> identify_cdrs_fallback nanobody_seq
      | Inr (cdr1_seq, cdr2_seq, cdr3_seq) \<Rightarrow>
          identify_cdrs_abnumber_loop nanobody_seq
            [(''CDR1'', cdr1_seq), (''CDR2'', cdr2_seq), (''CDR3'', cdr3_seq)] [])"

definition identify_nanobody_cdrs :: "bool \<Rightarrow> chain_fn \<Rightarrow> string \<Rightarrow> cdr_dict" where
  "identify_nanobody_cdrs HAS_ABNUMBER chain nanobody_seq =
     (if HAS_ABNUMBER then identify_cdrs_abnumber chain nanobody_seq
      else identify_cdrs_fallback nanobody_seq)"

section \<open>Selecting the positions to mask\<close>

definition convert_residue_indices_to_token_indices :: "int list \<Rightarrow> int \<Rightarrow> int list" where
  "convert_residue_indices_to_token_indices residue_indices peptide_start_idx =
     map (\<lambda>idx. peptide_start_idx + idx) residue_indices"

text \<open>
  The comprehension of the threshold strategy,
  \<open>[idx for idx in peptide_mask_indices if uncertainty[idx] > threshold]\<close>; the first
  index outside the tensor raises. The threshold is a Python float and the
  comparison is PyTorch's: the threshold is converted to the tensor's dtype by
  \<open>cast\<close> and the tensor element is compared with the result.
\<close>

fun threshold_positions ::
  "(real \<Rightarrow> real) \<Rightarrow> real list \<Rightarrow> real \<Rightarrow> int list \<Rightarrow> error + int list" where
  "threshold_positions cast uncertainty thr [] = Inr []"
| "threshold_positions cast uncertainty thr (idx # rest) =
     (case py_get uncertainty idx of
        Inl e \<Rightarrow> Inl e
      | Inr u \<Rightarrow>
          (case threshold_positions cast uncertainty thr rest of
             Inl e \<Rightarrow> Inl e
           | Inr ps \<Rightarrow> Inr (if u > cast thr then idx # ps else ps)))"

text \<open>The selection of \<open>uncertainty_guided_mutation.py\<close>.\<close>

definition ugm_select_positions_to_mask ::
  "numerics \<Rightarrow> ugm_mutator \<Rightarrow> real list \<Rightarrow> int list \<Rightarrow> int option \<Rightarrow> error + int list" where
  "ugm_select_positions_to_mask env m uncertainty mask_indices peptide_start_idx =
     (let peptide_mask_indices =
            (case peptide_start_idx of
               Some p \<Rightarrow> filter (\<lambda>idx. idx \<ge> p) mask_indices
             | None \<Rightarrow> mask_indices)
      in if peptide_mask_indices = [] then Inr []
         else if ugm_mask_strategy m = ''top_k'' then
           (let n_mask = max 1 (py_int (float_mul env (real (length peptide_mask_indices)) (ugm_mask_ratio m))) in
            case py_get_list uncertainty peptide_mask_indices of
              Inl e \<Rightarrow> Inl e
            | Inr vals \<Rightarrow>
                (case topk (tie_rank env) vals (min n_mask (int (length peptide_mask_indices))) of
                   Inl e \<Rightarrow> Inl e
                 | Inr top_uncertain_indices \<Rightarrow>
                     Inr (map (\<lambda>i. peptide_mask_indices ! i) top_uncertain_indices)))
         else if ugm_mask_strategy m = ''threshold'' then
           threshold_positions (to_dtype env) uncertainty (ugm_uncertainty_threshold m)
             peptide_mask_indices
         else if ugm_mask_strategy m = ''entropy'' then
           Inr [hd peptide_mask_indices]
         else Inl ValueError)"

text \<open>The selection of \<open>llm_redesign.py\<close>, with its two earlier branches.\<close>

definition select_positions_to_mask ::
  "numerics \<Rightarrow> bool \<Rightarrow> chain_fn \<Rightarrow> mutator \<Rightarrow> real list \<Rightarrow> int list \<Rightarrow> int option \<Rightarrow> error + int list" where
  "select_positions_to_mask env HAS_ABNUMBER chain m uncertainty mask_indices peptide_start_idx =
     (if nanobody_cdr_regions m \<noteq> None \<and> modality m = ''nanobody'' then
        (case peptide_start_idx of
           None \<Rightarrow> Inl ValueError
         | Some p \<Rightarrow>
             (case get_nanobody_cdr_residues HAS_ABNUMBER chain m of
                Inl e \<Rightarrow> Inl e
              | Inr cdr_residues \<Rightarrow>
                  Inr (convert_residue_indices_to_token_indices cdr_residues p)))
      else case residues_to_mutate m of
        Some residues \<Rightarrow>
          (case peptide_start_idx of
             None \<Rightarrow> Inl ValueError
           | Some p \<Rightarrow> Inr (convert_residue_indices_to_token_indices residues p))
      | None \<Rightarrow>
        (let peptide_mask_indices =
               (case peptide_start_idx of
                  Some p \<Rightarrow> filter (\<lambda>idx. idx \<ge> p) mask_indices
                | None \<Rightarrow> mask_indices)
         in if peptide_mask_indices = [] then Inr []
            else if mask_strategy m = ''top_k'' then
              (let n_mask = max 1 (py_int (float_mul env (real (length peptide_mask_indices)) (mask_ratio m))) in
               case py_get_list uncertainty peptide_mask_indices of
                 Inl e \<Rightarrow> Inl e
               | Inr vals \<Rightarrow>
                   (case topk (tie_rank env) vals (min n_mask (int (length peptide_mask_indices))) of
                      Inl e \<Rightarrow> Inl e
                    | Inr top_uncertain_indices \<Rightarrow>
                        Inr (map (\<lambda>i. peptide_mask_indices ! i) top_uncertain_indices)))
            else if mask_strategy m = ''threshold'' then
              threshold_positions (to_dtype env) uncertainty (uncertainty_threshold m)
                peptide_mask_indices
            else if mask_strategy m = ''entropy'' then
              Inr [hd peptide_mask_indices]
            else Inl ValueError))"

section \<open>Masking and re-sampling\<close>

text \<open>
  The tokenizer is a library object: \<open>encode\<close> is \<open>tokenizer(seq)['input_ids'][0]\<close>,
  \<open>decode\<close> takes the flag \<open>skip_special_tokens\<close>.
\<close>

record tokenizer =
  encode :: "string \<Rightarrow> int list"
  decode :: "bool \<Rightarrow> int list \<Rightarrow> string"
  mask_token_id :: int
  eos_token_id :: int

text \<open>The replacement loop of \<open>create_masked_sequence\<close>.\<close>

fun mask_loop :: "int list \<Rightarrow> int \<Rightarrow> int list \<Rightarrow> error + int list" where
  "mask_loop input_ids mask_id [] = Inr input_ids"
| "mask_loop input_ids mask_id (pos # rest) =
     (case py_set input_ids pos mask_id of
        Inl e \<Rightarrow> Inl e
      | Inr input_ids' \<Rightarrow> mask_loop input_ids' mask_id rest)"

definition create_masked_sequence :: "tokenizer \<Rightarrow> string \<Rightarrow> int list \<Rightarrow> error + string" where
  "create_masked_sequence tok seq positions_to_mask =
     (case mask_loop (encode tok seq) (mask_token_id tok) positions_to_mask of
        Inl e \<Rightarrow> Inl e
      | Inr input_ids \<Rightarrow> Inr (decode tok False input_ids))"

text \<open>
  \<open>generate_mutations\<close>. The model maps the input ids to one row of logits for every
  position (\<open>model ids pos\<close> is \<open>outputs.logits[0][pos]\<close>); \<open>sample\<close> is
  \<open>torch.multinomial(torch.softmax(row), 1)\<close>, which draws from the random generator,
  whose state \<open>'g\<close> is passed along. \<open>mask_positions\<close> is
  \<open>(input_ids == mask_token_id).nonzero()\<close>.
\<close>

definition mask_positions :: "int list \<Rightarrow> int \<Rightarrow> nat list" where
  "mask_positions input_ids mask_id =
     filter (\<lambda>i. input_ids ! i = mask_id) [0..<length input_ids]"

fun sample_loop ::
  "('l \<Rightarrow> 'g \<Rightarrow> int \<times> 'g) \<Rightarrow> (nat \<Rightarrow> 'l) \<Rightarrow> nat list \<Rightarrow> int list \<Rightarrow> 'g \<Rightarrow> int list \<times> 'g" where
  "sample_loop sample logits [] sampled_ids g = (sampled_ids, g)"
| "sample_loop sample logits (pos # rest) sampled_ids g =
     (case sample (logits pos) g of
        (sampled_token_id, g') \<Rightarrow>
          sample_loop sample logits rest (sampled_ids[pos := sampled_token_id]) g')"

text \<open>One pass of the outer loop, up to the sampled ids.\<close>

definition sample_sequence ::
  "('l \<Rightarrow> 'g \<Rightarrow> int \<times> 'g) \<Rightarrow> (int list \<Rightarrow> nat \<Rightarrow> 'l) \<Rightarrow> int list \<Rightarrow> int \<Rightarrow> 'g \<Rightarrow> int list \<times> 'g" where
  "sample_sequence sample model input_ids mask_id g =
     (let logits = model input_ids
      in sample_loop sample logits (mask_positions input_ids mask_id) input_ids g)"

text \<open>
  \<open>"".join(decoded_seq.split())\<close> removes the whitespace characters. A \<open>char\<close> stands
  for the code point of its number; these are the code points below 256 that
  \<open>str.split()\<close> treats as whitespace.
\<close>

definition is_space :: "char \<Rightarrow> bool" where
  "is_space c \<longleftrightarrow>
     (of_char c :: nat) \<in> {9, 10, 11, 12, 13, 28, 29, 30, 31, 32, 133, 160}"

fun generate_loop ::
  "tokenizer \<Rightarrow> ('l \<Rightarrow> 'g \<Rightarrow> int \<times> 'g) \<Rightarrow> (int list \<Rightarrow> nat \<Rightarrow> 'l) \<Rightarrow> int list \<Rightarrow> nat \<Rightarrow> 'g
     \<Rightarrow> string list \<Rightarrow> string list \<times> 'g" where
  "generate_loop tok sample model input_ids 0 g generated_sequences =
     (generated_sequences, g)"
| "generate_loop tok sample model input_ids (Suc n) g generated_sequences =
     (case sample_sequence sample model input_ids (mask_token_id tok) g of
        (sampled_ids, g') \<Rightarrow>
          (let decoded_seq = decode tok True sampled_ids;
               seq_out = filter (\<lambda>c. \<not> is_space c) decoded_seq
           in generate_loop tok sample model input_ids n g'
                (generated_sequences @ [seq_out])))"

definition generate_mutations ::
  "tokenizer \<Rightarrow> ('l \<Rightarrow> 'g \<Rightarrow> int \<times> 'g) \<Rightarrow> (int list \<Rightarrow> nat \<Rightarrow> 'l) \<Rightarrow> mutator \<Rightarrow> string \<Rightarrow> 'g
     \<Rightarrow> string list \<times> 'g" where
  "generate_mutations tok sample model m masked_seq g =
     generate_loop tok sample model (encode tok masked_seq) (nat (n_seq_out m)) g []"

text \<open>
  The re-sampler as the specification words it, for comparison: autoregressive, the
  logits for a masked position are those of the model run on the ids with the earlier
  masked positions already filled in.
\<close>

fun spec_autoregressive_loop ::
  "('l \<Rightarrow> 'g \<Rightarrow> int \<times> 'g) \<Rightarrow> (int list \<Rightarrow> nat \<Rightarrow> 'l) \<Rightarrow> nat list \<Rightarrow> int list \<Rightarrow> 'g \<Rightarrow> int list \<times> 'g" where
  "spec_autoregressive_loop sample model [] sampled_ids g = (sampled_ids, g)"
| "spec_autoregressive_loop sample model (pos # rest) sampled_ids g =
     (case sample (model sampled_ids pos) g of
        (sampled_token_id, g') \<Rightarrow>
          spec_autoregressive_loop sample model rest (sampled_ids[pos := sampled_token_id]) g')"

definition spec_autoregressive_sequence ::
  "('l \<Rightarrow> 'g \<Rightarrow> int \<times> 'g) \<Rightarrow> (int list \<Rightarrow> nat \<Rightarrow> 'l) \<Rightarrow> int list \<Rightarrow> int \<Rightarrow> 'g \<Rightarrow> int list \<times> 'g" where
  "spec_autoregressive_sequence sample model input_ids mask_id g =
     spec_autoregressive_loop sample model (mask_positions input_ids mask_id) input_ids g"

text \<open>
  The re-sampler that the code turns out to be, written without the model: it is
  given the logits rows of the masked input only. \<open>independent_draws\<close> draws one
  token from each row of a fixed list, the generator state being the only thing
  passed from one draw to the next; \<open>fill_positions\<close> writes drawn tokens into the
  masked positions; \<open>single_pass_rounds\<close> draws \<open>n\<close> times from the same rows.
\<close>

fun independent_draws ::
  "('l \<Rightarrow> 'g \<Rightarrow> int \<times> 'g) \<Rightarrow> 'l list \<Rightarrow> 'g \<Rightarrow> int list \<times> 'g" where
  "independent_draws sample [] g = ([], g)"
| "independent_draws sample (row # rows) g =
     (case sample row g of
        (t, g') \<Rightarrow>
          (case independent_draws sample rows g' of (ts, g'') \<Rightarrow> (t # ts, g'')))"

fun fill_positions :: "int list \<Rightarrow> nat list \<Rightarrow> int list \<Rightarrow> int list" where
  "fill_positions ids (p # ps) (t # ts) = fill_positions (ids[p := t]) ps ts"
| "fill_positions ids ps ts = ids"

fun single_pass_rounds ::
  "('l \<Rightarrow> 'g \<Rightarrow> int \<times> 'g) \<Rightarrow> 'l list \<Rightarrow> nat \<Rightarrow> 'g \<Rightarrow> int list list \<times> 'g" where
  "single_pass_rounds sample rows 0 g = ([], g)"
| "single_pass_rounds sample rows (Suc n) g =
     (case independent_draws sample rows g of
        (ts, g') \<Rightarrow>
          (case single_pass_rounds sample rows n g' of (tss, g'') \<Rightarrow> (ts # tss, g'')))"

definition single_pass_generate ::
  "tokenizer \<Rightarrow> ('l \<Rightarrow> 'g \<Rightarrow> int \<times> 'g) \<Rightarrow> (nat \<Rightarrow> 'l) \<Rightarrow> int list \<Rightarrow> nat \<Rightarrow> 'g
     \<Rightarrow> string list \<times> 'g" where
  "single_pass_generate tok sample logits input_ids n g =
     (case single_pass_rounds sample
             (map logits (mask_positions input_ids (mask_token_id tok))) n g of
        (tss, g') \<Rightarrow>
          (map (\<lambda>ts. filter (\<lambda>c. \<not> is_space c)
                       (decode tok True
                          (fill_positions input_ids
                             (mask_positions input_ids (mask_token_id tok)) ts)))
             tss,
           g'))"

text \<open>A small model and sampler to run the re-sampler on.\<close>

definition toy_model :: "int list \<Rightarrow> nat \<Rightarrow> int" where
  "toy_model ids pos = 65 + (sum_list ids + int pos) mod 20"

definition toy_sample :: "int \<Rightarrow> nat \<Rightarrow> int \<times> nat" where
  "toy_sample row g = (row + int g, Suc g)"

section \<open>Example inputs and auxiliary notions\<close>

text \<open>The first example of the main block of \<open>llm_redesign.py\<close>.\<close>

definition example_mutator :: mutator where
  "example_mutator =
     \<lparr>target_seq = ''MKTAYIAKQRQISFVKSHFSRQLEERLGLIEVQAPILSRVGDGTQDNLSGAEKAVQVKVKALPDAQFEVV'',
      temp_pept_seq = ''HELVELLA'',
      modality = ''custom'',
      model_id = ''Bo1015/proteinglm-1b-mlm'',
      model_weights = None,
      n_seq_out = 5,
      mask_strategy = ''top_k'',
      mask_ratio = 3 / 10,
      uncertainty_threshold = 1 / 2,
      use_template = False,
      custom_template = None,
      residues_to_mutate = None,
      nanobody_cdr_regions = None\<rparr>"

text \<open>An environment in which every library call succeeds.\<close>

definition all_succeed :: "effect \<Rightarrow> bool" where
  "all_succeed e = True"

text \<open>A stand-in for \<open>abnumber.Chain\<close> that reports fixed CDR strings.\<close>

definition example_chain :: chain_fn where
  "example_chain s = Inr (''GFT'', [], ''XYZ'')"

text \<open>The union of the hardcoded index ranges of the requested CDR names.\<close>

definition cdr_union :: "string list \<Rightarrow> int set" where
  "cdr_union regions =
     (if ''CDR1'' \<in> set regions then {26..35} else {})
     \<union> (if ''CDR2'' \<in> set regions then {49..65} else {})
     \<union> (if ''CDR3'' \<in> set regions then {94..102} else {})"

text \<open>Every entry of a CDR dictionary is found in the sequence at its start position.\<close>

definition located :: "string \<Rightarrow> cdr_dict \<Rightarrow> bool" where
  "located nanobody_seq d \<longleftrightarrow>
     (\<forall>(name, start, end, cs) \<in> set d.
        cs = py_slice nanobody_seq start (start + int (length cs)))"

text \<open>
  The fields that the older module \<open>uncertainty_guided_mutation.py\<close> shares with
  \<open>llm_redesign.py\<close>.
\<close>

definition ugm_of :: "mutator \<Rightarrow> ugm_mutator" where
  "ugm_of m =
     \<lparr>ugm_target_seq = target_seq m,
      ugm_temp_pept_seq = temp_pept_seq m,
      ugm_model_id = model_id m,
      ugm_model_weights = model_weights m,
      ugm_n_seq_out = n_seq_out m,
      ugm_mask_strategy = mask_strategy m,
      ugm_mask_ratio = mask_ratio m,
      ugm_uncertainty_threshold = uncertainty_threshold m\<rparr>"

text \<open>The peptide token indices: the mask indices at or after the start of the peptide.\<close>

definition peptide_indices :: "int list \<Rightarrow> int option \<Rightarrow> int list" where
  "peptide_indices mask_indices peptide_start_idx =
     (case peptide_start_idx of
        Some p \<Rightarrow> filter (\<lambda>idx. idx \<ge> p) mask_indices
      | None \<Rightarrow> mask_indices)"

text \<open>The uncertainty at a token index that is in range, by Python's indexing.\<close>

definition unc_at :: "real list \<Rightarrow> int \<Rightarrow> real" where
  "unc_at uncertainty idx = uncertainty ! norm_index (length uncertainty) idx"

text \<open>
  A stand-in tokenizer: one token per character, its code as the token id, \<open>0\<close> for
  the mask token, shown as \<open>#\<close>, and \<open>1\<close> for the end-of-sequence token.
\<close>

definition example_tokenizer :: tokenizer where
  "example_tokenizer =
     \<lparr>encode = map (\<lambda>c. if c = CHR ''#'' then 0 else int (of_char c)),
      decode = (\<lambda>skip_special_tokens ids.
                  map (\<lambda>i. if i = 0 then CHR ''#'' else char_of i)
                    (if skip_special_tokens then filter (\<lambda>i. i \<noteq> 0 \<and> i \<noteq> 1) ids else ids)),
      mask_token_id = 0,
      eos_token_id = 1\<rparr>"

text \<open>
  The numerics of a bfloat16 uncertainty tensor (the model is loaded in bfloat16):
  Python products rounded to a double, thresholds converted to bfloat16, and
  \<open>torch.topk\<close> taking the lower index first among equal values.
\<close>

definition bfloat16_numerics :: numerics where
  "bfloat16_numerics =
     \<lparr>float_mul = (\<lambda>a b. binary_round 53 (a * b)),
      to_dtype = binary_round 8,
      tie_rank = (\<lambda>i. i)\<rparr>"

section \<open>Auxiliary lemmas\<close>

lemma cdr_defs_lookup:
  "map_of NANOBODY_CDR_REGIONS_IMGT name =
     (if name = ''CDR1'' then Some (26, 35)
      else if name = ''CDR2'' then Some (49, 65)
      else if name = ''CDR3'' then Some (94, 102) else None)"
  by (simp add: NANOBODY_CDR_REGIONS_IMGT_def)

lemma fallback_loop_ok:
  "set regions \<subseteq> {''CDR1'', ''CDR2'', ''CDR3''} \<Longrightarrow>
   \<exists>xs. cdr_residues_fallback_loop regions acc = Inr xs \<and> set xs = set acc \<union> cdr_union regions"
proof (induction regions arbitrary: acc)
  case Nil
  then show ?case by (simp add: cdr_union_def)
next
  case (Cons r rs)
  then have rs: "set rs \<subseteq> {''CDR1'', ''CDR2'', ''CDR3''}" by simp
  from Cons.prems have "r = ''CDR1'' \<or> r = ''CDR2'' \<or> r = ''CDR3''" by simp
  then show ?case
  proof (elim disjE)
    assume r: "r = ''CDR1''"
    from Cons.IH [OF rs, of "acc @ [26..35]"] r show ?thesis
      by (auto simp: cdr_defs_lookup cdr_union_def simp del: upto_rec_numeral)
  next
    assume r: "r = ''CDR2''"
    from Cons.IH [OF rs, of "acc @ [49..65]"] r show ?thesis
      by (auto simp: cdr_defs_lookup cdr_union_def simp del: upto_rec_numeral)
  next
    assume r: "r = ''CDR3''"
    from Cons.IH [OF rs, of "acc @ [94..102]"] r show ?thesis
      by (auto simp: cdr_defs_lookup cdr_union_def simp del: upto_rec_numeral)
  qed
qed

lemma fallback_loop_unknown:
  "\<not> set regions \<subseteq> {''CDR1'', ''CDR2'', ''CDR3''} \<Longrightarrow>
   cdr_residues_fallback_loop regions acc = Inl ValueError"
proof (induction regions arbitrary: acc)
  case Nil
  then show ?case by simp
next
  case (Cons r rs)
  show ?case
  proof (cases "r = ''CDR1'' \<or> r = ''CDR2'' \<or> r = ''CDR3''")
    case True
    with Cons.prems have "\<not> set rs \<subseteq> {''CDR1'', ''CDR2'', ''CDR3''}" by auto
    from Cons.IH [OF this] True show ?thesis
      by (auto simp: cdr_defs_lookup simp del: upto_rec_numeral)
  next
    case False
    then show ?thesis by (simp add: cdr_defs_lookup)
  qed
qed

lemma take_min_length: "take (min (length xs) m) xs = take m xs"
  by (cases "m \<le> length xs") (simp_all add: min_def)

lemma clamp_bound_nat: "clamp_bound n (int k) = min n k"
  by (simp add: clamp_bound_def)

lemma py_slice_nat:
  "py_slice s (int k) (int j) = take (min (length s) j - min (length s) k) (drop (min (length s) k) s)"
  using clamp_bound_nat [of "length s" k] clamp_bound_nat [of "length s" j]
  by (simp add: py_slice_def Let_def)

lemma py_slice_length_le: "length (py_slice s a b) \<le> length s - clamp_bound (length s) a"
  by (simp add: py_slice_def Let_def)

lemma py_slice_self:
  assumes "0 \<le> a"
  shows "py_slice s a (a + int (length (py_slice s a b))) = py_slice s a b"
proof -
  obtain k where a: "a = int k" using assms nonneg_int_cases by blast
  let ?n = "length s"
  let ?hi = "clamp_bound ?n b"
  let ?lo = "min ?n k"
  have whole: "py_slice s a b = take (?hi - ?lo) (drop ?lo s)"
    using clamp_bound_nat [of ?n k] by (simp add: py_slice_def Let_def a)
  let ?L = "length (py_slice s a b)"
  have L: "?L = min (?hi - ?lo) (?n - ?lo)" by (simp add: whole min.commute)
  have "a + int ?L = int (k + ?L)" by (simp add: a)
  then have "py_slice s a (a + int ?L) = py_slice s (int k) (int (k + ?L))" by (simp add: a)
  also have "\<dots> = take (min ?n (k + ?L) - ?lo) (drop ?lo s)" by (rule py_slice_nat)
  also have "\<dots> = take (?hi - ?lo) (drop ?lo s)"
  proof (cases "k \<le> ?n")
    case True
    then have lo: "?lo = k" by simp
    have "?L \<le> ?n - k" using L lo by simp
    then have "min ?n (k + ?L) = k + ?L" using True by simp
    then have "min ?n (k + ?L) - ?lo = ?L" using lo by simp
    moreover have "take ?L (drop ?lo s) = take (?hi - ?lo) (drop ?lo s)"
      using take_min_length [of "drop ?lo s" "?hi - ?lo"] by (simp add: whole)
    ultimately show ?thesis by simp
  next
    case False
    then show ?thesis by simp
  qed
  finally show ?thesis using whole by simp
qed

lemma find_from_found:
  "find_from s sub i = r \<Longrightarrow> r \<noteq> - 1 \<Longrightarrow> 0 \<le> i \<Longrightarrow>
     i \<le> r \<and> nat (r - i) \<le> length s \<and> take (length sub) (drop (nat (r - i)) s) = sub"
proof (induction s arbitrary: i)
  case Nil
  then show ?case by (simp split: if_splits)
next
  case (Cons c cs)
  show ?case
  proof (cases "take (length sub) (c # cs) = sub")
    case True
    with Cons.prems show ?thesis by simp
  next
    case False
    with Cons.prems have r: "find_from cs sub (i + 1) = r" by simp
    have i1: "0 \<le> i + 1" using Cons.prems(3) by simp
    from Cons.IH [OF r Cons.prems(2) i1]
    have ih: "i + 1 \<le> r" "nat (r - (i + 1)) \<le> length cs"
      "take (length sub) (drop (nat (r - (i + 1))) cs) = sub" by simp_all
    have "nat (r - i) = Suc (nat (r - (i + 1)))" using ih(1) by simp
    with ih show ?thesis by simp
  qed
qed

lemma str_find_slice:
  assumes "str_find s sub \<noteq> - 1"
  shows "0 \<le> str_find s sub
         \<and> py_slice s (str_find s sub) (str_find s sub + int (length sub)) = sub"
proof -
  let ?r = "str_find s sub"
  from find_from_found [of s sub 0 ?r] assms
  have r: "0 \<le> ?r" "nat ?r \<le> length s" "take (length sub) (drop (nat ?r) s) = sub"
    by (simp_all add: str_find_def)
  obtain k where k: "?r = int k" using r(1) nonneg_int_cases by blast
  from r(2,3) k have kn: "k \<le> length s" and tk: "take (length sub) (drop k s) = sub" by simp_all
  from tk have "length (take (length sub) (drop k s)) = length sub" by simp
  then have le: "length sub \<le> length s - k" by simp
  have "?r + int (length sub) = int (k + length sub)" by (simp add: k)
  then have "py_slice s ?r (?r + int (length sub)) = py_slice s (int k) (int (k + length sub))"
    by (simp add: k)
  also have "\<dots> = take (min (length s) (k + length sub) - min (length s) k) (drop (min (length s) k) s)"
    by (rule py_slice_nat)
  also have "\<dots> = take (length sub) (drop k s)" using kn le by (simp add: min_def)
  finally show ?thesis using tk r(1) by simp
qed

lemma update_set_cases:
  "(k', v') \<in> set (AList.update k v al) \<Longrightarrow> (k', v') = (k, v) \<or> (k', v') \<in> set al"
  by (induction al) (auto split: if_splits)

lemma located_update:
  "located s d \<Longrightarrow> cs = py_slice s start (start + int (length cs)) \<Longrightarrow>
   located s (AList.update name (start, e, cs) d)"
  unfolding located_def using update_set_cases by fastforce

lemma abnumber_loop_located:
  "located s d \<Longrightarrow> located s (identify_cdrs_abnumber_loop s cdr_map d)"
proof (induction s cdr_map d rule: identify_cdrs_abnumber_loop.induct)
  case (1 s d)
  then show ?case by simp
next
  case (2 s cdr_name cdr_seq rest d)
  show ?case
  proof (cases "cdr_seq \<noteq> [] \<and> str_find s cdr_seq \<noteq> - 1")
    case True
    with str_find_slice [of s cdr_seq]
    have "cdr_seq = py_slice s (str_find s cdr_seq) (str_find s cdr_seq + int (length cdr_seq))"
      by simp
    from located_update [OF "2.prems" this] "2.IH"(1) True show ?thesis
      by (simp add: Let_def)
  next
    case False
    with 2 show ?thesis by (auto simp: Let_def)
  qed
qed

lemma fallback_loop_located:
  "located s d \<Longrightarrow> \<forall>(name, start, e) \<in> set defs. 0 \<le> start \<Longrightarrow>
   located s (identify_cdrs_fallback_loop s defs d)"
proof (induction s defs d rule: identify_cdrs_fallback_loop.induct)
  case (1 s d)
  then show ?case by simp
next
  case (2 s cdr_name start e rest d)
  from "2.prems"(2) have st: "0 \<le> start" and rest: "\<forall>(name, start, e) \<in> set rest. 0 \<le> start"
    by auto
  show ?case
  proof (cases "e < int (length s)")
    case True
    from py_slice_self [OF st, of s "e + 1"]
    have "py_slice s start (e + 1)
            = py_slice s start (start + int (length (py_slice s start (e + 1))))" by simp
    from located_update [OF "2.prems"(1) this] "2.IH"(1) True rest show ?thesis
      by (simp add: Let_def)
  next
    case False
    let ?ae = "min e (int (length s) - 1)"
    from py_slice_self [OF st, of s "?ae + 1"]
    have "py_slice s start (?ae + 1)
            = py_slice s start (start + int (length (py_slice s start (?ae + 1))))" by simp
    from located_update [OF "2.prems"(1) this] "2.IH"(2) False rest show ?thesis
      by (simp add: Let_def)
  qed
qed

lemma example_abnumber_dict:
  "identify_nanobody_cdrs True example_chain ''QQGFTAAGFT'' = [(''CDR1'', 2, 4, ''GFT'')]"
  by code_simp

lemma example_fallback_dict:
  "identify_nanobody_cdrs False example_chain ''AQVQLQESGGGLVQAGGSLRLSCAASERTF'' =
        [(''CDR1'', 26, 29, ''ERTF''), (''CDR2'', 49, 29, []), (''CDR3'', 94, 29, [])]"
  by code_simp

lemma select_without_branches:
  assumes "\<not> (nanobody_cdr_regions m \<noteq> None \<and> modality m = ''nanobody'')"
    and "residues_to_mutate m = None"
  shows "select_positions_to_mask env has_abnumber chain m uncertainty mask_indices start =
         ugm_select_positions_to_mask env (ugm_of m) uncertainty mask_indices start"
proof -
  have f: "ugm_mask_strategy (ugm_of m) = mask_strategy m"
    "ugm_mask_ratio (ugm_of m) = mask_ratio m"
    "ugm_uncertainty_threshold (ugm_of m) = uncertainty_threshold m"
    by (simp_all add: ugm_of_def)
  from assms(1) have c: "(nanobody_cdr_regions m \<noteq> None \<and> modality m = ''nanobody'') = False"
    by simp
  show ?thesis
    unfolding select_positions_to_mask_def ugm_select_positions_to_mask_def f c
    by (simp add: assms(2))
qed

lemma py_get_list_length:
  "py_get_list xs idxs = Inr vs \<Longrightarrow> length vs = length idxs"
  by (induction idxs arbitrary: vs) (auto split: sum.splits)



lemma topk_indices:
  assumes "topk tie vs k = Inr idxs"
  shows "set idxs \<subseteq> {..<length vs}" and "distinct idxs" and "length idxs = nat k"
proof -
  from assms have k: "0 \<le> k" "k \<le> int (length vs)"
    and idxs: "idxs = take (nat k) (sort_key (\<lambda>i. - (vs ! i)) (sort_key tie [0..<length vs]))"
    by (auto simp: topk_def split: if_splits)
  have "set idxs \<subseteq> set (sort_key (\<lambda>i. - (vs ! i)) (sort_key tie [0..<length vs]))"
    unfolding idxs by (rule set_take_subset)
  then show "set idxs \<subseteq> {..<length vs}" by auto
  show "distinct idxs" unfolding idxs by (simp add: distinct_take)
  show "length idxs = nat k" unfolding idxs using k by simp
qed

lemma threshold_positions_ok:
  "\<forall>i \<in> set idxs. index_ok (length u) i \<Longrightarrow>
   threshold_positions cast u thr idxs = Inr (filter (\<lambda>i. unc_at u i > cast thr) idxs)"
  by (induction idxs) (simp_all add: py_get_def unc_at_def)

lemma threshold_positions_subset:
  "threshold_positions cast u thr idxs = Inr ps \<Longrightarrow> set ps \<subseteq> set idxs"
  by (induction idxs arbitrary: ps) (auto split: sum.splits if_splits)

lemma nth_map_subset:
  assumes "set idxs \<subseteq> {..<length xs}"
  shows "set (map (\<lambda>i. xs ! i) idxs) \<subseteq> set xs"
proof
  fix x assume "x \<in> set (map (\<lambda>i. xs ! i) idxs)"
  then obtain i where "i \<in> set idxs" "x = xs ! i" by auto
  with assms show "x \<in> set xs" by (auto intro: nth_mem)
qed

lemma ugm_select_threshold:
  assumes "ugm_mask_strategy u = ''threshold''"
    and "\<forall>i \<in> set (peptide_indices mask_indices start). index_ok (length uncertainty) i"
  shows "ugm_select_positions_to_mask env u uncertainty mask_indices start =
           Inr (filter (\<lambda>i. unc_at uncertainty i > to_dtype env (ugm_uncertainty_threshold u))
                  (peptide_indices mask_indices start))"
proof -
  let ?pmi = "peptide_indices mask_indices start"
  have sel: "ugm_select_positions_to_mask env u uncertainty mask_indices start =
        (if ?pmi = [] then Inr []
         else threshold_positions (to_dtype env) uncertainty (ugm_uncertainty_threshold u) ?pmi)"
    using assms(1)
    by (simp add: ugm_select_positions_to_mask_def peptide_indices_def Let_def)
  show ?thesis
  proof (cases "?pmi = []")
    case True
    with sel show ?thesis by simp
  next
    case False
    with sel threshold_positions_ok [OF assms(2)] show ?thesis by simp
  qed
qed

lemma ugm_select_ge:
  assumes "ugm_select_positions_to_mask env u uncertainty mask_indices (Some p) = Inr ps"
  shows "\<forall>q \<in> set ps. p \<le> q"
proof -
  let ?pmi = "filter (\<lambda>idx. idx \<ge> p) mask_indices"
  have pmi: "\<forall>q \<in> set ?pmi. p \<le> q" by simp
  have "set ps \<subseteq> set ?pmi"
  proof (cases "?pmi = []")
    case True
    with assms show ?thesis by (simp add: ugm_select_positions_to_mask_def)
  next
    case ne: False
    show ?thesis
    proof (cases "ugm_mask_strategy u = ''top_k''")
      case True
      let ?k = "min (max 1 (py_int (float_mul env (real (length ?pmi)) (ugm_mask_ratio u)))) (int (length ?pmi))"
      from assms ne True obtain vals idxs where
        vals: "py_get_list uncertainty ?pmi = Inr vals"
        and idxs: "topk (tie_rank env) vals ?k = Inr idxs"
        and ps: "ps = map (\<lambda>i. ?pmi ! i) idxs"
        by (auto simp: ugm_select_positions_to_mask_def Let_def split: sum.splits)
      from py_get_list_length [OF vals] topk_indices(1) [OF idxs]
      have "set idxs \<subseteq> {..<length ?pmi}" by simp
      then show ?thesis unfolding ps by (rule nth_map_subset)
    next
      case nt: False
      show ?thesis
      proof (cases "ugm_mask_strategy u = ''threshold''")
        case True
        with assms ne nt
        have "threshold_positions (to_dtype env) uncertainty (ugm_uncertainty_threshold u) ?pmi = Inr ps"
          by (simp add: ugm_select_positions_to_mask_def Let_def)
        then show ?thesis by (rule threshold_positions_subset)
      next
        case False
        with assms ne nt have "ps = [hd ?pmi]"
          by (simp add: ugm_select_positions_to_mask_def Let_def split: if_splits)
        moreover from ne have "hd ?pmi \<in> set ?pmi" by (rule hd_in_set)
        ultimately show ?thesis by (simp del: set_filter)
      qed
    qed
  qed
  with pmi show ?thesis by blast
qed

lemma fallback_loop_nonneg:
  "cdr_residues_fallback_loop regions acc = Inr xs \<Longrightarrow> \<forall>a \<in> set acc. 0 \<le> a \<Longrightarrow>
   \<forall>x \<in> set xs. 0 \<le> x"
proof (induction regions arbitrary: acc)
  case Nil
  then show ?case by simp
next
  case (Cons r rs)
  from Cons.prems(1) obtain s e where
    se: "map_of NANOBODY_CDR_REGIONS_IMGT r = Some (s, e)"
    and rest: "cdr_residues_fallback_loop rs (acc @ [s..e]) = Inr xs"
    by (auto split: option.splits)
  from se have "0 \<le> s" by (auto simp: cdr_defs_lookup split: if_splits)
  with Cons.prems(2) have "\<forall>a \<in> set (acc @ [s..e]). 0 \<le> a" by auto
  from Cons.IH [OF rest this] show ?case .
qed

lemma abnumber_loop_nonneg:
  "cdr_residues_abnumber_loop cdr_map s regions acc = Inr xs \<Longrightarrow> \<forall>a \<in> set acc. 0 \<le> a \<Longrightarrow>
   \<forall>x \<in> set xs. 0 \<le> x"
proof (induction regions arbitrary: acc)
  case Nil
  then show ?case by simp
next
  case (Cons r rs)
  from Cons.prems(1) obtain cdr_seq where cs: "map_of cdr_map r = Some cdr_seq"
    by (auto split: option.splits)
  show ?case
  proof (cases "cdr_seq \<noteq> [] \<and> str_find s cdr_seq \<noteq> - 1")
    case True
    let ?st = "str_find s cdr_seq"
    from True str_find_slice [of s cdr_seq] have "0 \<le> ?st" by simp
    with Cons.prems(2)
    have acc: "\<forall>a \<in> set (acc @ [?st..?st + int (length cdr_seq) - 1]). 0 \<le> a" by auto
    from Cons.prems(1) cs True
    have "cdr_residues_abnumber_loop cdr_map s rs (acc @ [?st..?st + int (length cdr_seq) - 1]) = Inr xs"
      by (simp add: Let_def)
    from Cons.IH [OF this acc] show ?thesis .
  next
    case False
    with Cons.prems(1) cs have "cdr_residues_abnumber_loop cdr_map s rs acc = Inr xs"
      by (auto simp: Let_def split: if_splits)
    from Cons.IH [OF this Cons.prems(2)] show ?thesis .
  qed
qed

lemma fallback_nonneg:
  assumes "get_cdr_residues_fallback m = Inr rs"
  shows "\<forall>r \<in> set rs. 0 \<le> r"
proof -
  from assms obtain regions xs where
    "cdr_residues_fallback_loop regions [] = Inr xs" and rs: "rs = sort (remdups xs)"
    by (auto simp: get_cdr_residues_fallback_def split: option.splits sum.splits)
  from fallback_loop_nonneg [OF this(1)] have "\<forall>x \<in> set xs. 0 \<le> x" by simp
  then show ?thesis by (simp add: rs)
qed

lemma abnumber_nonneg:
  assumes "get_cdr_residues_abnumber chain m s = Inr rs"
  shows "\<forall>r \<in> set rs. 0 \<le> r"
proof (cases "chain s")
  case (Inl e)
  with assms have "get_cdr_residues_fallback m = Inr rs"
    by (simp add: get_cdr_residues_abnumber_def)
  then show ?thesis by (rule fallback_nonneg)
next
  case (Inr t)
  obtain c1 c2 c3 where t: "t = (c1, c2, c3)" by (cases t) auto
  let ?cm = "[(''CDR1'', c1), (''CDR2'', c2), (''CDR3'', c3)]"
  show ?thesis
  proof (cases "nanobody_cdr_regions m")
    case None
    with assms Inr t have "get_cdr_residues_fallback m = Inr rs"
      by (simp add: get_cdr_residues_abnumber_def)
    then show ?thesis by (rule fallback_nonneg)
  next
    case (Some regions)
    show ?thesis
    proof (cases "cdr_residues_abnumber_loop ?cm s regions []")
      case (Inl e)
      with assms Inr t Some have "get_cdr_residues_fallback m = Inr rs"
        by (simp add: get_cdr_residues_abnumber_def)
      then show ?thesis by (rule fallback_nonneg)
    next
      case loop: (Inr xs)
      with assms Inr t Some have rs: "rs = sort (remdups xs)"
        by (simp add: get_cdr_residues_abnumber_def)
      from abnumber_loop_nonneg [OF loop] have "\<forall>x \<in> set xs. 0 \<le> x" by simp
      then show ?thesis by (simp add: rs)
    qed
  qed
qed

lemma cdr_residues_nonneg:
  assumes "get_nanobody_cdr_residues has_abnumber chain m = Inr rs"
  shows "\<forall>r \<in> set rs. 0 \<le> r"
proof -
  from assms obtain s where
    "(has_abnumber \<and> get_cdr_residues_abnumber chain m s = Inr rs)
     \<or> (\<not> has_abnumber \<and> get_cdr_residues_fallback m = Inr rs)"
    by (auto simp: get_nanobody_cdr_residues_def split: if_splits sum.splits)
  then show ?thesis using abnumber_nonneg fallback_nonneg by blast
qed

lemma select_ge:
  assumes "select_positions_to_mask env has_abnumber chain m uncertainty mask_indices (Some p) = Inr ps"
    and "\<forall>rs. residues_to_mutate m = Some rs \<longrightarrow> (\<forall>r \<in> set rs. 0 \<le> r)"
  shows "\<forall>q \<in> set ps. p \<le> q"
proof (cases "nanobody_cdr_regions m \<noteq> None \<and> modality m = ''nanobody''")
  case True
  with assms(1) obtain rs where
    rs: "get_nanobody_cdr_residues has_abnumber chain m = Inr rs"
    and ps: "ps = map (\<lambda>idx. p + idx) rs"
    by (auto simp: select_positions_to_mask_def convert_residue_indices_to_token_indices_def
             split: sum.splits)
  from cdr_residues_nonneg [OF rs] show ?thesis by (auto simp: ps)
next
  case nb: False
  show ?thesis
  proof (cases "residues_to_mutate m")
    case None
    from select_without_branches [OF nb None] assms(1)
    have "ugm_select_positions_to_mask env (ugm_of m) uncertainty mask_indices (Some p) = Inr ps"
      by simp
    then show ?thesis by (rule ugm_select_ge)
  next
    case (Some rs)
    with nb assms(1) have "ps = map (\<lambda>idx. p + idx) rs"
      by (auto simp: select_positions_to_mask_def convert_residue_indices_to_token_indices_def)
    with assms(2) Some show ?thesis by auto
  qed
qed

lemma py_set_Inr:
  "py_set xs p v = Inr ys \<longleftrightarrow> index_ok (length xs) p \<and> ys = xs[norm_index (length xs) p := v]"
  by (auto simp: py_set_def)

lemma norm_index_lt: "index_ok n p \<Longrightarrow> norm_index n p < n"
  by (auto simp: index_ok_def norm_index_def)

lemma norm_index_eq:
  assumes "index_ok n p" and "i < n"
  shows "norm_index n p = i \<longleftrightarrow> p = int i \<or> p = int i - int n"
  using assms by (auto simp: index_ok_def norm_index_def)

lemma mask_loop_result:
  "mask_loop ids m ps = Inr ids' \<Longrightarrow>
     length ids' = length ids
     \<and> (\<forall>p \<in> set ps. index_ok (length ids) p)
     \<and> (\<forall>i < length ids.
           ids' ! i = (if i \<in> norm_index (length ids) ` set ps then m else ids ! i))"
proof (induction ps arbitrary: ids)
  case Nil
  then show ?case by simp
next
  case (Cons p ps)
  let ?n = "length ids"
  let ?k = "norm_index ?n p"
  from Cons.prems have ok: "index_ok ?n p"
    and rest: "mask_loop (ids[?k := m]) m ps = Inr ids'"
    by (auto simp: py_set_def split: if_splits)
  from Cons.IH [OF rest]
  have len: "length ids' = ?n"
    and oks: "\<forall>q \<in> set ps. index_ok ?n q"
    and val: "\<forall>i < ?n. ids' ! i = (if i \<in> norm_index ?n ` set ps then m else ids[?k := m] ! i)"
    by simp_all
  have "\<forall>i < ?n. ids' ! i = (if i \<in> norm_index ?n ` set (p # ps) then m else ids ! i)"
  proof (intro allI impI)
    fix i assume i: "i < ?n"
    show "ids' ! i = (if i \<in> norm_index ?n ` set (p # ps) then m else ids ! i)"
    proof (cases "i = ?k")
      case True
      with val i show ?thesis by simp
    next
      case False
      with val i show ?thesis by auto
    qed
  qed
  with len ok oks show ?case by simp
qed

lemma mask_loop_total:
  "\<forall>p \<in> set ps. index_ok (length ids) p \<Longrightarrow> \<exists>ids'. mask_loop ids m ps = Inr ids'"
  by (induction ps arbitrary: ids) (simp_all add: py_set_def)

lemma mask_loop_error:
  "\<not> (\<forall>p \<in> set ps. index_ok (length ids) p) \<Longrightarrow> mask_loop ids m ps = Inl IndexError"
proof (induction ps arbitrary: ids)
  case Nil
  then show ?case by simp
next
  case (Cons p ps)
  show ?case
  proof (cases "index_ok (length ids) p")
    case True
    with Cons.prems have "\<not> (\<forall>q \<in> set ps. index_ok (length (ids[norm_index (length ids) p := m])) q)"
      by simp
    from Cons.IH [OF this] True show ?thesis by (simp add: py_set_def)
  next
    case False
    then show ?thesis by (simp add: py_set_def)
  qed
qed

lemma listed_iff:
  assumes "\<forall>p \<in> set ps. index_ok n p" and "i < n"
  shows "i \<in> norm_index n ` set ps \<longleftrightarrow> int i \<in> set ps \<or> int i - int n \<in> set ps"
proof
  assume "i \<in> norm_index n ` set ps"
  then obtain p where p: "p \<in> set ps" "norm_index n p = i" by auto
  with assms norm_index_eq [of n p i] show "int i \<in> set ps \<or> int i - int n \<in> set ps" by auto
next
  assume "int i \<in> set ps \<or> int i - int n \<in> set ps"
  then obtain p where p: "p \<in> set ps" "p = int i \<or> p = int i - int n" by auto
  with assms norm_index_eq [of n p i] have "norm_index n p = i" by auto
  with p(1) show "i \<in> norm_index n ` set ps" by auto
qed

lemma example_mask_loop:
  "mask_loop (encode example_tokenizer ''ABCDE'') (mask_token_id example_tokenizer) [1, - 1]
     = Inr [65, 0, 67, 68, 0]"
  by code_simp

lemma example_masked_sequence:
  "create_masked_sequence example_tokenizer ''ABCDE'' [1, - 1] = Inr ''A#CD#''"
  by code_simp

lemma mask_positions_props:
  "distinct (mask_positions ids mask_id)"
  "\<forall>p \<in> set (mask_positions ids mask_id). p < length ids"
  "i < length ids \<Longrightarrow> i \<in> set (mask_positions ids mask_id) \<longleftrightarrow> ids ! i = mask_id"
  by (simp_all add: mask_positions_def)

lemma sample_loop_frame:
  "length (fst (sample_loop sample logits ps ids g)) = length ids
   \<and> (\<forall>i. i \<notin> set ps \<longrightarrow> fst (sample_loop sample logits ps ids g) ! i = ids ! i)"
proof (induction ps arbitrary: ids g)
  case Nil
  then show ?case by simp
next
  case (Cons p ps)
  obtain t g' where s: "sample (logits p) g = (t, g')" by (cases "sample (logits p) g")
  from Cons.IH [of "ids[p := t]" g'] s show ?case by simp
qed





lemma binary_round_eval:
  assumes "2 powr (of_int k) \<le> \<bar>x\<bar>" and "\<bar>x\<bar> < 2 powr (of_int (k + 1))"
  shows "binary_round p x =
           of_int (round_to_even (x / 2 powr (of_int (k - int p + 1))))
             * 2 powr (of_int (k - int p + 1))"
proof -
  from assms(1) have pos: "0 < \<bar>x\<bar>" by (smt (verit) powr_gt_zero)
  then have x: "x \<noteq> 0" by simp
  have "\<lfloor>log 2 \<bar>x\<bar>\<rfloor> = k"
    using floor_log_eq_powr_iff [of "\<bar>x\<bar>" 2 k] pos assms by simp
  with x show ?thesis by (simp add: binary_round_def Let_def)
qed

lemma bfloat16_half: "binary_round 8 (1 / 2) = 1 / 2"
  using binary_round_eval [of "- 1" "1 / 2" 8]
  by (simp add: powr_minus round_to_even_def powr_numeral)

lemma bfloat16_below_half: "binary_round 8 (2047 / 4096) = 1 / 2"
  using binary_round_eval [of "- 2" "2047 / 4096" 8]
  by (simp add: powr_minus round_to_even_def powr_numeral)

lemma double_two: "binary_round 53 2 = 2"
  using binary_round_eval [of 1 2 53]
  by (simp add: powr_minus round_to_even_def powr_numeral)

lemma example_select_top_k:
  "select_positions_to_mask bfloat16_numerics False example_chain
     (example_mutator\<lparr>mask_ratio := 1 / 2\<rparr>)
     [1 / 8, 1 / 16, 3 / 4, 1 / 2, 7 / 8, 1 / 4] [0, 1, 2, 3, 4, 5] (Some 2) = Inr [4, 2]"
  by (simp add: select_positions_to_mask_def example_mutator_def bfloat16_numerics_def
        double_two py_get_def index_ok_def norm_index_def topk_def py_int_def)

lemma example_ugm_select_top_k:
  "ugm_select_positions_to_mask bfloat16_numerics (ugm_of (example_mutator\<lparr>mask_ratio := 1 / 2\<rparr>))
     [1 / 8, 1 / 16, 3 / 4, 1 / 2, 7 / 8, 1 / 4] [0, 1, 2, 3, 4, 5] (Some 2) = Inr [4, 2]"
  by (simp add: ugm_select_positions_to_mask_def ugm_of_def example_mutator_def
        bfloat16_numerics_def double_two py_get_def index_ok_def norm_index_def topk_def
        py_int_def)

lemma independent_draws_length:
  "length (fst (independent_draws sample rows g)) = length rows"
proof (induction rows arbitrary: g)
  case Nil
  then show ?case by simp
next
  case (Cons r rs)
  obtain t g' where s: "sample r g = (t, g')" by (cases "sample r g")
  obtain ts g'' where d: "independent_draws sample rs g' = (ts, g'')"
    by (cases "independent_draws sample rs g'")
  from Cons.IH [of g'] d have "length ts = length rs" by simp
  with s d show ?case by simp
qed

lemma sample_loop_fill:
  "sample_loop sample logits ps ids g =
     (fill_positions ids ps (fst (independent_draws sample (map logits ps) g)),
      snd (independent_draws sample (map logits ps) g))"
  by (induction ps arbitrary: ids g) (simp_all split: prod.splits)

lemma sample_loop_draws:
  "distinct ps \<Longrightarrow> \<forall>p \<in> set ps. p < length ids \<Longrightarrow>
   map (\<lambda>p. fst (sample_loop sample logits ps ids g) ! p) ps
     = fst (independent_draws sample (map logits ps) g)"
proof (induction ps arbitrary: ids g)
  case Nil
  then show ?case by simp
next
  case (Cons p ps)
  obtain t g' where s: "sample (logits p) g = (t, g')" by (cases "sample (logits p) g")
  from Cons.prems have d: "distinct ps" and notin: "p \<notin> set ps"
    and r: "\<forall>q \<in> set ps. q < length (ids[p := t])" and pl: "p < length ids"
    by simp_all
  from sample_loop_frame [of sample logits ps "ids[p := t]" g'] notin pl
  have hd: "fst (sample_loop sample logits ps (ids[p := t]) g') ! p = t" by simp
  from Cons.IH [OF d r, of g'] hd s show ?case by (simp split: prod.splits)
qed

lemma generate_loop_rounds:
  "generate_loop tok sample model ids n g acc =
     (case single_pass_rounds sample
             (map (model ids) (mask_positions ids (mask_token_id tok))) n g of
        (tss, g') \<Rightarrow>
          (acc @ map (\<lambda>ts. filter (\<lambda>c. \<not> is_space c)
                       (decode tok True
                          (fill_positions ids (mask_positions ids (mask_token_id tok)) ts)))
                   tss,
           g'))"
proof (induction n arbitrary: g acc)
  case 0
  then show ?case by simp
next
  case (Suc n)
  show ?case
    by (simp add: Suc.IH sample_sequence_def sample_loop_fill Let_def split: prod.splits)
qed

lemma generate_mutations_single_pass:
  "generate_mutations tok sample model m masked_seq g =
     single_pass_generate tok sample (model (encode tok masked_seq)) (encode tok masked_seq)
       (nat (n_seq_out m)) g"
  by (simp add: generate_mutations_def single_pass_generate_def generate_loop_rounds)

lemma example_sample_sequence:
  "sample_sequence toy_sample toy_model [0, 0] 0 0 = ([65, 67], 2)"
  by code_simp

lemma example_generate_mutations:
  "generate_mutations example_tokenizer toy_sample toy_model
         (example_mutator\<lparr>n_seq_out := 2\<rparr>) ''A#B#'' 0 = ([''AMBP'', ''AOBR''], 4)"
  by code_simp

lemma example_single_pass_generate:
  "single_pass_generate example_tokenizer toy_sample
     (toy_model (encode example_tokenizer ''A#B#'')) (encode example_tokenizer ''A#B#'') 2 0
   = ([''AMBP'', ''AOBR''], 4)"
  by code_simp

lemma example_independent_draws:
  "independent_draws toy_sample (map (toy_model [0, 0]) (mask_positions [0, 0] 0)) 0
     = ([65, 67], 2)"
  by code_simp

section \<open>Claims\<close>

text \<open>
  Claim C7 (modality templates). \<open>get_template_sequence\<close> returns the fixed template
  of \<open>MODALITY_TEMPLATES\<close> when \<open>custom_template\<close> is \<open>None\<close> and the modality is
  affibody, nanobody or affitin; it returns \<open>custom_template\<close> whenever that is not
  \<open>None\<close>, whatever the modality; and it raises, with ValueError, exactly when
  \<open>custom_template\<close> is \<open>None\<close> and the modality is none of the three names.
\<close>

theorem get_template_sequence_cases:
  "(custom_template m = None \<and> modality m = ''affibody'' \<longrightarrow>
      get_template_sequence m = Inr ''VDNKFNKELSVAGREIVTLPNLNDPQKKAFIFSLWDDPSQSANLLAEAKKLNDAQAPK'')
   \<and> (custom_template m = None \<and> modality m = ''nanobody'' \<longrightarrow>
      get_template_sequence m = Inr ''AQVQLQESGGGLVQAGGSLRLSCAASERTFSTYAMGWFRQAPGREREFLAQINWSGTTTYYAESVKDRTTISRDNAKNTVYLEMNNLNADDTGIYFCAAHPQRGWGSTLGWTYWGQGTQVTVSSGGGGSGGGKPIPNPLLGLDSTRTGHHHHHH'')
   \<and> (custom_template m = None \<and> modality m = ''affitin'' \<longrightarrow>
      get_template_sequence m = Inr ''MRGSHHHHHHGSVKVKFVSSGEEKEVDTSKIKKVWRNLTKYGTIVQFTYDDNGKTGRGYVRELDAPKELLDMLARAEGKLN'')
   \<and> (\<forall>t. custom_template m = Some t \<longrightarrow> get_template_sequence m = Inr t)
   \<and> ((\<exists>e. get_template_sequence m = Inl e) \<longleftrightarrow>
        custom_template m = None \<and> modality m \<notin> {''affibody'', ''nanobody'', ''affitin''})
   \<and> (\<forall>e. get_template_sequence m = Inl e \<longrightarrow> e = ValueError)"
  by (auto simp: get_template_sequence_def MODALITY_TEMPLATES_def split: option.splits if_splits)

theorem get_template_sequence_cases_witness:
  "get_template_sequence (example_mutator\<lparr>modality := ''affibody''\<rparr>) =
     Inr ''VDNKFNKELSVAGREIVTLPNLNDPQKKAFIFSLWDDPSQSANLLAEAKKLNDAQAPK''
   \<and> get_template_sequence (example_mutator\<lparr>modality := ''nanobody''\<rparr>) =
     Inr ''AQVQLQESGGGLVQAGGSLRLSCAASERTFSTYAMGWFRQAPGREREFLAQINWSGTTTYYAESVKDRTTISRDNAKNTVYLEMNNLNADDTGIYFCAAHPQRGWGSTLGWTYWGQGTQVTVSSGGGGSGGGKPIPNPLLGLDSTRTGHHHHHH''
   \<and> get_template_sequence (example_mutator\<lparr>modality := ''affitin''\<rparr>) =
     Inr ''MRGSHHHHHHGSVKVKFVSSGEEKEVDTSKIKKVWRNLTKYGTIVQFTYDDNGKTGRGYVRELDAPKELLDMLARAEGKLN''
   \<and> get_template_sequence (example_mutator\<lparr>custom_template := Some ''HELLO''\<rparr>) = Inr ''HELLO''
   \<and> get_template_sequence example_mutator = Inl ValueError"
  using get_template_sequence_cases [of "example_mutator\<lparr>modality := ''affibody''\<rparr>"]
        get_template_sequence_cases [of "example_mutator\<lparr>modality := ''nanobody''\<rparr>"]
        get_template_sequence_cases [of "example_mutator\<lparr>modality := ''affitin''\<rparr>"]
        get_template_sequence_cases [of "example_mutator\<lparr>custom_template := Some ''HELLO''\<rparr>"]
        get_template_sequence_cases [of example_mutator]
  by (auto simp: example_mutator_def)

text \<open>
  Claim C3 (fixed residue list). When \<open>residues_to_mutate\<close> is a list and the
  nanobody-CDR branch does not apply, \<open>select_positions_to_mask\<close> returns
  \<open>[peptide_start_idx + i for i in residues_to_mutate]\<close>, in the same order and of
  the same length, whatever the uncertainty tensor and the mask indices are; with
  \<open>peptide_start_idx = None\<close> it raises ValueError.
\<close>

theorem residues_to_mutate_positions:
  assumes "\<not> (nanobody_cdr_regions m \<noteq> None \<and> modality m = ''nanobody'')"
    and "residues_to_mutate m = Some residues"
  shows "select_positions_to_mask env has_abnumber chain m uncertainty mask_indices (Some p) =
           Inr (map (\<lambda>i. p + i) residues)
       \<and> length (map (\<lambda>i. p + i) residues) = length residues
       \<and> select_positions_to_mask env has_abnumber chain m uncertainty mask_indices None =
           Inl ValueError"
  using assms
  by (auto simp: select_positions_to_mask_def convert_residue_indices_to_token_indices_def)

theorem residues_to_mutate_positions_witness:
  "select_positions_to_mask bfloat16_numerics False example_chain
       (example_mutator\<lparr>residues_to_mutate := Some [0, 2, 4, 6]\<rparr>)
       [1 / 2, 1 / 4] [0, 1] (Some 72) = Inr [72, 74, 76, 78]
   \<and> select_positions_to_mask bfloat16_numerics False example_chain
       (example_mutator\<lparr>residues_to_mutate := Some [0, 2, 4, 6]\<rparr>)
       [1 / 2, 1 / 4] [0, 1] None = Inl ValueError"
  using residues_to_mutate_positions
          [of "example_mutator\<lparr>residues_to_mutate := Some [0, 2, 4, 6]\<rparr>" "[0, 2, 4, 6]"
              bfloat16_numerics False example_chain "[1 / 2, 1 / 4]" "[0, 1]" 72]
  by (simp add: example_mutator_def)

text \<open>
  Claim C5 (hardcoded CDR fallback). With \<open>HAS_ABNUMBER\<close> false, for a nanobody
  mutator whose \<open>nanobody_cdr_regions\<close> is a list and that has a peptide sequence
  (the constructor's check), \<open>get_nanobody_cdr_residues\<close> returns the sorted,
  duplicate-free union of the inclusive ranges CDR1 26..35, CDR2 49..65, CDR3 94..102
  of exactly the requested names, and raises ValueError when a requested name is
  none of CDR1, CDR2, CDR3.
\<close>

theorem cdr_fallback_residues:
  assumes "modality m = ''nanobody''"
    and "nanobody_cdr_regions m = Some regions"
    and "temp_pept_seq m \<noteq> [] \<or> use_template m"
  shows "(set regions \<subseteq> {''CDR1'', ''CDR2'', ''CDR3''} \<longrightarrow>
            (\<exists>xs. get_nanobody_cdr_residues False chain m = Inr xs
                  \<and> sorted xs \<and> distinct xs
                  \<and> set xs = (if ''CDR1'' \<in> set regions then {26..35} else {})
                            \<union> (if ''CDR2'' \<in> set regions then {49..65} else {})
                            \<union> (if ''CDR3'' \<in> set regions then {94..102} else {})))
       \<and> (\<not> set regions \<subseteq> {''CDR1'', ''CDR2'', ''CDR3''} \<longrightarrow>
            get_nanobody_cdr_residues False chain m = Inl ValueError)"
proof -
  have pep: "\<exists>s. get_peptide_sequence m = Inr s"
    using assms(1,3)
    by (auto simp: get_peptide_sequence_def get_template_sequence_def MODALITY_TEMPLATES_def
             split: option.splits)
  then obtain s where s: "get_peptide_sequence m = Inr s" ..
  have eq: "get_nanobody_cdr_residues False chain m = get_cdr_residues_fallback m"
    using assms(1,2) s by (simp add: get_nanobody_cdr_residues_def)
  show ?thesis
  proof (intro conjI impI)
    assume ok: "set regions \<subseteq> {''CDR1'', ''CDR2'', ''CDR3''}"
    from fallback_loop_ok [OF ok, of "[]"] obtain xs where
      xs: "cdr_residues_fallback_loop regions [] = Inr xs" "set xs = cdr_union regions"
      by auto
    have "get_cdr_residues_fallback m = Inr (sort (remdups xs))"
      using assms(2) xs(1) by (simp add: get_cdr_residues_fallback_def)
    with eq xs(2) show "\<exists>xs. get_nanobody_cdr_residues False chain m = Inr xs
                  \<and> sorted xs \<and> distinct xs
                  \<and> set xs = (if ''CDR1'' \<in> set regions then {26..35} else {})
                            \<union> (if ''CDR2'' \<in> set regions then {49..65} else {})
                            \<union> (if ''CDR3'' \<in> set regions then {94..102} else {})"
      by (simp add: cdr_union_def)
  next
    assume bad: "\<not> set regions \<subseteq> {''CDR1'', ''CDR2'', ''CDR3''}"
    from fallback_loop_unknown [OF bad, of "[]"] assms(2) eq
    show "get_nanobody_cdr_residues False chain m = Inl ValueError"
      by (simp add: get_cdr_residues_fallback_def)
  qed
qed

theorem cdr_fallback_residues_witness:
  "(\<exists>xs. get_nanobody_cdr_residues False example_chain
            (example_mutator\<lparr>modality := ''nanobody'', use_template := True,
               nanobody_cdr_regions := Some [''CDR3'', ''CDR1'', ''CDR3'']\<rparr>) = Inr xs
         \<and> sorted xs \<and> distinct xs \<and> set xs = {26..35} \<union> {94..102})
   \<and> get_nanobody_cdr_residues False example_chain
        (example_mutator\<lparr>modality := ''nanobody'', use_template := True,
           nanobody_cdr_regions := Some [''CDR1'', ''CDR4'']\<rparr>) = Inl ValueError"
  using cdr_fallback_residues
          [of "example_mutator\<lparr>modality := ''nanobody'', use_template := True,
                 nanobody_cdr_regions := Some [''CDR3'', ''CDR1'', ''CDR3'']\<rparr>"
              "[''CDR3'', ''CDR1'', ''CDR3'']" example_chain]
        cdr_fallback_residues
          [of "example_mutator\<lparr>modality := ''nanobody'', use_template := True,
                 nanobody_cdr_regions := Some [''CDR1'', ''CDR4'']\<rparr>"
              "[''CDR1'', ''CDR4'']" example_chain]
  by (simp add: example_mutator_def del: upto_rec_numeral)

text \<open>
  Claim C6 (CDR entries are located substrings). Every entry \<open>(start, end, seq)\<close> of
  the dictionary returned by \<open>identify_nanobody_cdrs\<close> satisfies
  \<open>seq == nanobody_seq[start : start + len(seq)]\<close>, on the abnumber path as on the
  hardcoded fallback, its short-sequence branch included.
\<close>

theorem cdr_entries_located:
  "\<forall>(name, start, end, cdr_seq) \<in> set (identify_nanobody_cdrs has_abnumber chain nanobody_seq).
     cdr_seq = py_slice nanobody_seq start (start + int (length cdr_seq))"
proof -
  have e: "located nanobody_seq []" by (simp add: located_def)
  have fb: "located nanobody_seq (identify_cdrs_fallback nanobody_seq)"
    unfolding identify_cdrs_fallback_def
    by (rule fallback_loop_located [OF e]) (simp add: NANOBODY_CDR_REGIONS_IMGT_def)
  have ab: "located nanobody_seq (identify_cdrs_abnumber chain nanobody_seq)"
  proof (cases "chain nanobody_seq")
    case (Inl err)
    with fb show ?thesis by (simp add: identify_cdrs_abnumber_def)
  next
    case (Inr t)
    obtain c1 c2 c3 where "t = (c1, c2, c3)" by (cases t) auto
    with Inr show ?thesis
      unfolding identify_cdrs_abnumber_def
      by (simp del: identify_cdrs_abnumber_loop.simps add: abnumber_loop_located [OF e])
  qed
  from fb ab show ?thesis
    by (simp add: identify_nanobody_cdrs_def located_def)
qed

theorem cdr_entries_located_witness:
  "identify_nanobody_cdrs True example_chain ''QQGFTAAGFT'' = [(''CDR1'', 2, 4, ''GFT'')]
   \<and> ''GFT'' = py_slice ''QQGFTAAGFT'' 2 (2 + int (length ''GFT''))
   \<and> identify_nanobody_cdrs False example_chain ''AQVQLQESGGGLVQAGGSLRLSCAASERTF'' =
        [(''CDR1'', 26, 29, ''ERTF''), (''CDR2'', 49, 29, []), (''CDR3'', 94, 29, [])]
   \<and> ''ERTF'' = py_slice ''AQVQLQESGGGLVQAGGSLRLSCAASERTF'' 26 (26 + int (length ''ERTF''))"
  using cdr_entries_located [of True example_chain "''QQGFTAAGFT''"]
        cdr_entries_located [of False example_chain "''AQVQLQESGGGLVQAGGSLRLSCAASERTF''"]
  unfolding example_abnumber_dict example_fallback_dict
  by simp

text \<open>
  Claim C2 (threshold re-masking rule). The claim says that exactly the peptide
  token indices whose uncertainty is strictly greater than \<open>uncertainty_threshold\<close>
  are returned. The comparison is PyTorch's, carried out in the dtype of the
  tensor: with a bfloat16 tensor \<open>[0.5, 0.25]\<close> and the threshold
  \<open>0.499755859375\<close> (\<open>2047 / 4096\<close>, a Python float), the threshold becomes \<open>0.5\<close> in
  bfloat16, and index \<open>0\<close>, whose uncertainty \<open>0.5\<close> is greater than the threshold, is
  not returned.
\<close>

theorem threshold_counterexample:
  "select_positions_to_mask bfloat16_numerics False example_chain
     (example_mutator\<lparr>mask_strategy := ''threshold'', uncertainty_threshold := 2047 / 4096\<rparr>)
     [1 / 2, 1 / 4] [0, 1] (Some 0) = Inr []
   \<and> ugm_select_positions_to_mask bfloat16_numerics
       (ugm_of (example_mutator\<lparr>mask_strategy := ''threshold'',
                  uncertainty_threshold := 2047 / 4096\<rparr>))
     [1 / 2, 1 / 4] [0, 1] (Some 0) = Inr []
   \<and> peptide_indices [0, 1] (Some 0) = [0, 1]
   \<and> unc_at [1 / 2, 1 / 4] 0
       > uncertainty_threshold
           (example_mutator\<lparr>mask_strategy := ''threshold'', uncertainty_threshold := 2047 / 4096\<rparr>)
   \<and> to_dtype bfloat16_numerics (2047 / 4096) = 1 / 2"
  by (simp add: select_positions_to_mask_def ugm_select_positions_to_mask_def ugm_of_def
        example_mutator_def bfloat16_numerics_def bfloat16_below_half peptide_indices_def
        unc_at_def py_get_def index_ok_def norm_index_def)

text \<open>
  Claim C2 as amended. With \<open>mask_strategy = "threshold"\<close>, neither the CDR branch
  nor \<open>residues_to_mutate\<close> applying, and the peptide token indices being indices of
  the uncertainty tensor, \<open>select_positions_to_mask\<close> returns exactly the peptide
  token indices whose uncertainty is strictly greater than \<open>uncertainty_threshold\<close>
  converted to the dtype of the uncertainty tensor, in their original order; an
  index whose uncertainty is at or below the converted threshold is never
  returned. Both modules behave so.
\<close>

theorem threshold_rule:
  assumes "\<not> (nanobody_cdr_regions m \<noteq> None \<and> modality m = ''nanobody'')"
    and "residues_to_mutate m = None"
    and "mask_strategy m = ''threshold''"
    and "\<forall>i \<in> set (peptide_indices mask_indices start). index_ok (length uncertainty) i"
  shows "select_positions_to_mask env has_abnumber chain m uncertainty mask_indices start =
           Inr (filter (\<lambda>i. unc_at uncertainty i > to_dtype env (uncertainty_threshold m))
                  (peptide_indices mask_indices start))
       \<and> ugm_select_positions_to_mask env (ugm_of m) uncertainty mask_indices start =
           Inr (filter (\<lambda>i. unc_at uncertainty i > to_dtype env (uncertainty_threshold m))
                  (peptide_indices mask_indices start))"
proof -
  have s: "ugm_mask_strategy (ugm_of m) = ''threshold''"
    and t: "ugm_uncertainty_threshold (ugm_of m) = uncertainty_threshold m"
    using assms(3) by (simp_all add: ugm_of_def)
  from ugm_select_threshold [OF s assms(4), of env] select_without_branches [OF assms(1,2)]
  show ?thesis by (simp add: t)
qed

theorem threshold_rule_witness:
  "select_positions_to_mask bfloat16_numerics False example_chain
     (example_mutator\<lparr>mask_strategy := ''threshold''\<rparr>)
     [1 / 8, 1 / 16, 3 / 4, 1 / 2, 7 / 8, 1 / 4] [0, 1, 2, 3, 4, 5] (Some 2) = Inr [2, 4]
   \<and> ugm_select_positions_to_mask bfloat16_numerics
       (ugm_of (example_mutator\<lparr>mask_strategy := ''threshold''\<rparr>))
     [1 / 8, 1 / 16, 3 / 4, 1 / 2, 7 / 8, 1 / 4] [0, 1, 2, 3, 4, 5] (Some 2) = Inr [2, 4]"
  using threshold_rule
          [of "example_mutator\<lparr>mask_strategy := ''threshold''\<rparr>" "[0, 1, 2, 3, 4, 5]" "Some 2"
              "[1 / 8, 1 / 16, 3 / 4, 1 / 2, 7 / 8, 1 / 4]" bfloat16_numerics False example_chain]
  by (simp add: example_mutator_def peptide_indices_def index_ok_def unc_at_def norm_index_def
        bfloat16_numerics_def bfloat16_half)

text \<open>
  Claim C9 (peptide-only masking). For every strategy and every input, when
  \<open>peptide_start_idx\<close> is an integer and the entries of \<open>residues_to_mutate\<close> are
  non-negative (the CDR residue indices always are), every position in the list that
  \<open>select_positions_to_mask\<close> returns is at least \<open>peptide_start_idx\<close>. Both modules
  behave so.
\<close>

theorem peptide_only_masking:
  "(select_positions_to_mask env has_abnumber chain m uncertainty mask_indices (Some p) = Inr ps
      \<and> (\<forall>rs. residues_to_mutate m = Some rs \<longrightarrow> (\<forall>r \<in> set rs. 0 \<le> r))
      \<longrightarrow> (\<forall>q \<in> set ps. p \<le> q))
   \<and> (ugm_select_positions_to_mask env u uncertainty mask_indices (Some p) = Inr ps'
      \<longrightarrow> (\<forall>q \<in> set ps'. p \<le> q))"
  using select_ge [of env has_abnumber chain m uncertainty mask_indices p ps]
        ugm_select_ge [of env u uncertainty mask_indices p ps']
  by blast

theorem peptide_only_masking_witness:
  "select_positions_to_mask bfloat16_numerics False example_chain
     (example_mutator\<lparr>mask_ratio := 1 / 2\<rparr>)
     [1 / 8, 1 / 16, 3 / 4, 1 / 2, 7 / 8, 1 / 4] [0, 1, 2, 3, 4, 5] (Some 2) = Inr [4, 2]
   \<and> ugm_select_positions_to_mask bfloat16_numerics
       (ugm_of (example_mutator\<lparr>mask_ratio := 1 / 2\<rparr>))
     [1 / 8, 1 / 16, 3 / 4, 1 / 2, 7 / 8, 1 / 4] [0, 1, 2, 3, 4, 5] (Some 2) = Inr [4, 2]
   \<and> list_all (\<lambda>q. 2 \<le> q) [4, 2 :: int]"
  using peptide_only_masking
          [of bfloat16_numerics False example_chain "example_mutator\<lparr>mask_ratio := 1 / 2\<rparr>"
              "[1 / 8, 1 / 16, 3 / 4, 1 / 2, 7 / 8, 1 / 4]" "[0, 1, 2, 3, 4, 5]" 2 "[4, 2]"
              "ugm_of (example_mutator\<lparr>mask_ratio := 1 / 2\<rparr>)" "[4, 2]"]
        example_select_top_k example_ugm_select_top_k
  by simp

text \<open>
  Claim C8 (missing-peptide precondition). The claim says that with \<open>use_template\<close>
  true \<open>get_peptide_sequence\<close> returns the template sequence and never raises for an
  empty \<open>temp_pept_seq\<close>. It does raise: with the default modality \<open>"custom"\<close> and no
  \<open>custom_template\<close> there is no template, the constructor accepts the object, and
  \<open>get_peptide_sequence\<close> raises ValueError.
\<close>

theorem use_template_counterexample:
  "use_template (example_mutator\<lparr>temp_pept_seq := [], use_template := True\<rparr>)
   \<and> temp_pept_seq (example_mutator\<lparr>temp_pept_seq := [], use_template := True\<rparr>) = []
   \<and> snd (post_init all_succeed (example_mutator\<lparr>temp_pept_seq := [], use_template := True\<rparr>))
       = Inr ()
   \<and> get_peptide_sequence (example_mutator\<lparr>temp_pept_seq := [], use_template := True\<rparr>)
       = Inl ValueError"
  by (simp add: example_mutator_def post_init_def all_succeed_def get_peptide_sequence_def
        get_template_sequence_def MODALITY_TEMPLATES_def)

text \<open>
  Claim C8 as amended. Constructing the mutator with an empty \<open>temp_pept_seq\<close> and
  \<open>use_template\<close> false raises ValueError before any library call, and
  \<open>get_peptide_sequence\<close> raises ValueError under the same condition. Whenever
  \<open>use_template\<close> is true, \<open>get_peptide_sequence\<close> is \<open>get_template_sequence\<close>,
  whatever \<open>temp_pept_seq\<close> is: it returns the template when \<open>custom_template\<close> is
  given or the modality is affibody, nanobody or affitin, and raises ValueError
  otherwise.
\<close>

theorem missing_peptide_precondition:
  "(temp_pept_seq m = [] \<and> \<not> use_template m \<longrightarrow>
      post_init env m = ([], Inl ValueError) \<and> get_peptide_sequence m = Inl ValueError)
   \<and> (use_template m \<longrightarrow> get_peptide_sequence m = get_template_sequence m)
   \<and> (use_template m
        \<and> (custom_template m \<noteq> None \<or> modality m \<in> {''affibody'', ''nanobody'', ''affitin''})
        \<longrightarrow> (\<exists>s. get_peptide_sequence m = Inr s))
   \<and> (use_template m \<and> custom_template m = None
        \<and> modality m \<notin> {''affibody'', ''nanobody'', ''affitin''}
        \<longrightarrow> get_peptide_sequence m = Inl ValueError)"
  by (auto simp: post_init_def get_peptide_sequence_def get_template_sequence_def
        MODALITY_TEMPLATES_def split: option.splits)

theorem missing_peptide_precondition_witness:
  "post_init all_succeed (example_mutator\<lparr>temp_pept_seq := []\<rparr>) = ([], Inl ValueError)
   \<and> get_peptide_sequence (example_mutator\<lparr>temp_pept_seq := []\<rparr>) = Inl ValueError
   \<and> get_peptide_sequence
        (example_mutator\<lparr>temp_pept_seq := [], use_template := True, modality := ''affibody''\<rparr>)
       = Inr ''VDNKFNKELSVAGREIVTLPNLNDPQKKAFIFSLWDDPSQSANLLAEAKKLNDAQAPK''
   \<and> get_peptide_sequence (example_mutator\<lparr>temp_pept_seq := [], use_template := True\<rparr>)
       = Inl ValueError"
  using missing_peptide_precondition [of "example_mutator\<lparr>temp_pept_seq := []\<rparr>" all_succeed]
        missing_peptide_precondition
          [of "example_mutator\<lparr>temp_pept_seq := [], use_template := True, modality := ''affibody''\<rparr>"
              all_succeed]
        missing_peptide_precondition
          [of "example_mutator\<lparr>temp_pept_seq := [], use_template := True\<rparr>" all_succeed]
  by (simp add: example_mutator_def get_template_sequence_def MODALITY_TEMPLATES_def)

text \<open>
  Claim C10 (masking frame property). The claim says that every position not listed
  in \<open>positions_to_mask\<close> keeps its token id. A negative entry is a Python index
  from the end: with \<open>positions_to_mask = [-1]\<close> the last position, which is not
  listed, is masked.
\<close>

theorem masking_frame_counterexample:
  "encode example_tokenizer ''ABC'' = [65, 66, 67]
   \<and> mask_loop [65, 66, 67] (mask_token_id example_tokenizer) [- 1] = Inr [65, 66, 0]
   \<and> (2 :: int) \<notin> set [- 1]
   \<and> [65, 66, 0 :: int] ! 2 \<noteq> [65, 66, 67] ! 2
   \<and> create_masked_sequence example_tokenizer ''ABC'' [- 1] = Inr ''AB#''"
  by code_simp

text \<open>
  Claim C10 as amended. Over the token ids of \<open>seq\<close>, of length \<open>n\<close>: when the
  replacement loop of \<open>create_masked_sequence\<close> completes, the list keeps its length,
  a position \<open>i\<close> holds the mask token id if \<open>i\<close> or \<open>i - n\<close> is listed in
  \<open>positions_to_mask\<close> (a negative entry \<open>p\<close> designates position \<open>p + n\<close>), and
  holds its original token id otherwise. The loop completes exactly when every entry
  lies in \<open>-n .. n-1\<close>; otherwise the function raises IndexError.
\<close>

theorem masking_frame:
  "(mask_loop (encode tok seq) (mask_token_id tok) ps = Inr ids' \<longrightarrow>
      create_masked_sequence tok seq ps = Inr (decode tok False ids')
      \<and> length ids' = length (encode tok seq)
      \<and> (\<forall>i < length (encode tok seq).
            ids' ! i =
              (if int i \<in> set ps \<or> int i - int (length (encode tok seq)) \<in> set ps
               then mask_token_id tok else encode tok seq ! i)))
   \<and> ((\<forall>p \<in> set ps. index_ok (length (encode tok seq)) p) \<longrightarrow>
        (\<exists>ids'. mask_loop (encode tok seq) (mask_token_id tok) ps = Inr ids'))
   \<and> (\<not> (\<forall>p \<in> set ps. index_ok (length (encode tok seq)) p) \<longrightarrow>
        create_masked_sequence tok seq ps = Inl IndexError)"
proof (intro conjI impI)
  assume loop: "mask_loop (encode tok seq) (mask_token_id tok) ps = Inr ids'"
  then show "create_masked_sequence tok seq ps = Inr (decode tok False ids')"
    by (simp add: create_masked_sequence_def)
  from mask_loop_result [OF loop]
  have len: "length ids' = length (encode tok seq)"
    and ok: "\<forall>p \<in> set ps. index_ok (length (encode tok seq)) p"
    and val: "\<forall>i < length (encode tok seq).
           ids' ! i = (if i \<in> norm_index (length (encode tok seq)) ` set ps
                       then mask_token_id tok else encode tok seq ! i)"
    by simp_all
  show "length ids' = length (encode tok seq)" by (rule len)
  show "\<forall>i < length (encode tok seq).
            ids' ! i =
              (if int i \<in> set ps \<or> int i - int (length (encode tok seq)) \<in> set ps
               then mask_token_id tok else encode tok seq ! i)"
    using val listed_iff [OF ok] by simp
next
  assume "\<forall>p \<in> set ps. index_ok (length (encode tok seq)) p"
  then show "\<exists>ids'. mask_loop (encode tok seq) (mask_token_id tok) ps = Inr ids'"
    by (rule mask_loop_total)
next
  assume "\<not> (\<forall>p \<in> set ps. index_ok (length (encode tok seq)) p)"
  from mask_loop_error [OF this]
  show "create_masked_sequence tok seq ps = Inl IndexError"
    by (simp add: create_masked_sequence_def)
qed

theorem masking_frame_witness:
  "mask_loop (encode example_tokenizer ''ABCDE'') (mask_token_id example_tokenizer) [1, - 1]
     = Inr [65, 0, 67, 68, 0]
   \<and> create_masked_sequence example_tokenizer ''ABCDE'' [1, - 1] = Inr ''A#CD#''
   \<and> [65, 0, 67, 68, 0 :: int] ! 1 = mask_token_id example_tokenizer
   \<and> [65, 0, 67, 68, 0 :: int] ! 2 = encode example_tokenizer ''ABCDE'' ! 2
   \<and> create_masked_sequence example_tokenizer ''ABCDE'' [5] = Inl IndexError"
  using masking_frame [of example_tokenizer "''ABCDE''" "[1, - 1]" "[65, 0, 67, 68, 0]"]
        masking_frame [of example_tokenizer "''ABCDE''" "[5]" "[]"]
        example_mask_loop example_masked_sequence
  by (simp add: example_tokenizer_def index_ok_def)

text \<open>
  Claim C4 (autoregressive re-sampler). The claim says that the logits used for a
  later masked position depend on the samples drawn at earlier masked positions. In
  \<open>generate_mutations\<close> the model is run on the masked input, before any token of a
  sequence is sampled. On the toy model the second masked position is sampled from
  the row of the masked input (66), where an autoregressive re-sampler uses the row
  of the input with the first sample filled in (71), and the two re-samplers give
  different sequences.
\<close>

theorem autoregressive_counterexample:
  "sample_sequence toy_sample toy_model [0, 0] 0 0 = ([65, 67], 2)
   \<and> spec_autoregressive_sequence toy_sample toy_model [0, 0] 0 0 = ([65, 72], 2)
   \<and> mask_positions [0, 0] 0 = [0, 1]
   \<and> toy_model [0, 0] 1 = 66
   \<and> toy_model [65, 0] 1 = 71"
  by code_simp

text \<open>
  Claim C4 as amended. \<open>generate_mutations\<close>, for every \<open>n_seq_out\<close>, is the
  single-pass re-sampler: every generated sequence is sampled from the logits rows
  of the model on the masked input, which are the same for all sequences and fixed
  before the first draw, and only the random generator's state passes from one draw
  to the next, within a sequence and from one sequence to the next. Within one
  sequence the sampled ids are the input ids with the drawn tokens written into the
  masked positions: the list keeps its length, the masked positions hold the
  independent draws in order, and every other position keeps its token id.
\<close>

theorem single_pass_sampling:
  "generate_mutations tok sample model m masked_seq g =
     single_pass_generate tok sample (model (encode tok masked_seq)) (encode tok masked_seq)
       (nat (n_seq_out m)) g
   \<and> sample_sequence sample model input_ids mask_id g =
       (fill_positions input_ids (mask_positions input_ids mask_id)
          (fst (independent_draws sample
                  (map (model input_ids) (mask_positions input_ids mask_id)) g)),
        snd (independent_draws sample
               (map (model input_ids) (mask_positions input_ids mask_id)) g))
   \<and> length (fst (sample_sequence sample model input_ids mask_id g)) = length input_ids
   \<and> map (\<lambda>p. fst (sample_sequence sample model input_ids mask_id g) ! p)
         (mask_positions input_ids mask_id)
       = fst (independent_draws sample
                (map (model input_ids) (mask_positions input_ids mask_id)) g)
   \<and> (\<forall>i < length input_ids.
         input_ids ! i \<noteq> mask_id \<longrightarrow>
           fst (sample_sequence sample model input_ids mask_id g) ! i = input_ids ! i)"
proof (intro conjI)
  let ?ps = "mask_positions input_ids mask_id"
  have seq: "sample_sequence sample model input_ids mask_id g =
               sample_loop sample (model input_ids) ?ps input_ids g"
    by (simp add: sample_sequence_def)
  from sample_loop_frame [of sample "model input_ids" ?ps input_ids g]
  have len: "length (fst (sample_loop sample (model input_ids) ?ps input_ids g)) = length input_ids"
    and frame: "\<forall>i. i \<notin> set ?ps \<longrightarrow>
                  fst (sample_loop sample (model input_ids) ?ps input_ids g) ! i = input_ids ! i"
    by simp_all
  show "generate_mutations tok sample model m masked_seq g =
     single_pass_generate tok sample (model (encode tok masked_seq)) (encode tok masked_seq)
       (nat (n_seq_out m)) g"
    by (rule generate_mutations_single_pass)
  show "sample_sequence sample model input_ids mask_id g =
       (fill_positions input_ids ?ps
          (fst (independent_draws sample (map (model input_ids) ?ps) g)),
        snd (independent_draws sample (map (model input_ids) ?ps) g))"
    unfolding seq by (rule sample_loop_fill)
  show "length (fst (sample_sequence sample model input_ids mask_id g)) = length input_ids"
    using len by (simp add: seq)
  show "map (\<lambda>p. fst (sample_sequence sample model input_ids mask_id g) ! p) ?ps
          = fst (independent_draws sample (map (model input_ids) ?ps) g)"
    unfolding seq
    by (rule sample_loop_draws) (rule mask_positions_props)+
  show "\<forall>i < length input_ids.
         input_ids ! i \<noteq> mask_id \<longrightarrow>
           fst (sample_sequence sample model input_ids mask_id g) ! i = input_ids ! i"
    using frame mask_positions_props(3) [of _ input_ids mask_id] by (simp add: seq)
qed

theorem single_pass_sampling_witness:
  "generate_mutations example_tokenizer toy_sample toy_model
     (example_mutator\<lparr>n_seq_out := 2\<rparr>) ''A#B#'' 0 = ([''AMBP'', ''AOBR''], 4)
   \<and> single_pass_generate example_tokenizer toy_sample
       (toy_model (encode example_tokenizer ''A#B#'')) (encode example_tokenizer ''A#B#'') 2 0
     = ([''AMBP'', ''AOBR''], 4)
   \<and> fst (sample_sequence toy_sample toy_model [0, 0] 0 0) = [65, 67]
   \<and> fst (independent_draws toy_sample (map (toy_model [0, 0]) (mask_positions [0, 0] 0)) 0)
       = [65, 67]"
  using single_pass_sampling
          [of example_tokenizer toy_sample toy_model "example_mutator\<lparr>n_seq_out := 2\<rparr>"
              "''A#B#''" 0 "[0, 0]" 0]
        example_sample_sequence example_generate_mutations example_independent_draws
  by simp



end
